theory Spec2Isabelle
  imports Main "HOL-Library.Word"
begin

unbundle bit_operations_syntax

section \<open>Common machine model\<close>

text \<open>
  The kernel is written in C for a 32-bit x86: \<open>uint\<close> and every pointer is a
  32-bit word, \<open>int\<close> a 32-bit two's complement value.  A call of \<open>panic\<close> never
  returns, so every kernel function is modelled with a result in \<open>'s stop + 'a\<close>:
  \<open>Inl\<close> carries the reason the call did not return.
\<close>

type_synonym u32 = "32 word"
type_synonym u8 = "8 word"

text \<open>
  A call can also suspend its thread in \<open>sleep(chan, lk)\<close>: \<open>Sleep chan s\<close> records
  the wait channel and the state of the data the function works on at the moment
  the thread gives up the processor.  After a wakeup the source re-evaluates the
  loop the call sleeps in; the model stops at the first suspension.  The wait
  channels are the addresses passed to \<open>sleep\<close> and \<open>wakeup\<close>.
\<close>

datatype chan = NoChan | ChanProc nat | ChanLog | ChanNread u32 | ChanNwrite u32

datatype 's stop = Panic string | Sleep chan 's | Zombie 's

text \<open>
  \<open>Zombie s\<close> is the end of \<open>exit\<close>: the process has become a zombie and entered
  the scheduler, never to return.
\<close>

text \<open>Sequencing of calls that may not return.\<close>

definition thenR :: "'s stop + 'a \<Rightarrow> ('a \<Rightarrow> 's stop + 'b) \<Rightarrow> 's stop + 'b" where
  "thenR m f = (case m of Inl e \<Rightarrow> Inl e | Inr x \<Rightarrow> f x)"

text \<open>A callee that works on a part of the caller's state: \<open>inS\<close> puts the part back.\<close>

definition inS :: "('t \<Rightarrow> 's) \<Rightarrow> 't stop + 'a \<Rightarrow> 's stop + 'a" where
  "inS put m = (case m of Inl e \<Rightarrow> Inl (map_stop put e) | Inr x \<Rightarrow> Inr x)"

subsection \<open>spinlock.c\<close>

text \<open>
  The model follows one CPU.  A spinlock is then either held by this CPU or not;
  \<open>acquire\<close> panics when \<open>holding(lk)\<close> is already true and \<open>release\<close> panics when it
  is not.
\<close>

datatype spinlock = Unlocked | Locked

definition holding :: "spinlock \<Rightarrow> bool" where
  "holding lk = (lk = Locked)"

definition acquire :: "spinlock \<Rightarrow> 's stop + spinlock" where
  "acquire lk = (if holding lk then Inl (Panic ''acquire'') else Inr Locked)"

definition release :: "spinlock \<Rightarrow> 's stop + spinlock" where
  "release lk = (if \<not> holding lk then Inl (Panic ''release'') else Inr Unlocked)"

section \<open>kalloc.c: the physical page allocator\<close>

text \<open>
  Modelled from the spec: \<open>PGSIZE\<close> is declared in mmu.h, which is not among the
  sources; the spec fixes a frame as a 4 KiB page.
\<close>

definition PGSIZE :: nat where
  "PGSIZE = 4096"

text \<open>
  The linker symbol \<open>end\<close> and the constants \<open>KERNBASE\<close> and \<open>PHYSTOP\<close> of
  memlayout.h are parameters of the model.
\<close>

record memlayout =
  kend :: u32
  KERNBASE :: u32
  PHYSTOP :: u32

text \<open>
  Modelled from the spec: the macro \<open>V2P\<close> of memlayout.h is not among the sources;
  the spec maps the kernel region, which starts at \<open>KERNBASE\<close>, identically to
  physical memory.
\<close>

definition V2P :: "memlayout \<Rightarrow> u32 \<Rightarrow> u32" where
  "V2P L a = a - KERNBASE L"

text \<open>
  \<open>kmem\<close> together with the kernel memory that holds the \<open>struct run\<close> links.
  Memory is read and written in aligned 32-bit words: \<open>mem s a\<close> is the word at
  address \<open>a\<close>.
\<close>

record kmem =
  lock :: spinlock
  use_lock :: u32
  freelist :: u32
  mem :: "u32 \<Rightarrow> u32"

text \<open>\<open>memset(v, c, n)\<close> seen through word-sized reads: every byte of the range is \<open>c\<close>.\<close>

definition memset_words :: "(u32 \<Rightarrow> u32) \<Rightarrow> u32 \<Rightarrow> u8 \<Rightarrow> nat \<Rightarrow> (u32 \<Rightarrow> u32)" where
  "memset_words m v c n =
     (\<lambda>a. if unat (a - v) < n then word_rcat [c, c, c, c] else m a)"

definition kmem_acquire :: "kmem \<Rightarrow> 's stop + kmem" where
  "kmem_acquire s =
     (if use_lock s \<noteq> 0
      then thenR (acquire (lock s)) (\<lambda>l. Inr (s\<lparr>lock := l\<rparr>))
      else Inr s)"

definition kmem_release :: "kmem \<Rightarrow> 's stop + kmem" where
  "kmem_release s =
     (if use_lock s \<noteq> 0
      then thenR (release (lock s)) (\<lambda>l. Inr (s\<lparr>lock := l\<rparr>))
      else Inr s)"

definition kfree :: "memlayout \<Rightarrow> u32 \<Rightarrow> kmem \<Rightarrow> 's stop + kmem" where
  "kfree L v s =
     (if unat v mod PGSIZE \<noteq> 0 \<or> v < kend L \<or> V2P L v \<ge> PHYSTOP L
      then Inl (Panic ''kfree'')
      else thenR (kmem_acquire (s\<lparr>mem := memset_words (mem s) v 1 PGSIZE\<rparr>))
             (\<lambda>s1. kmem_release
                (s1\<lparr>mem := (mem s1)(v := freelist s1), freelist := v\<rparr>)))"

definition kalloc :: "kmem \<Rightarrow> 's stop + (u32 \<times> kmem)" where
  "kalloc s =
     thenR (kmem_acquire s)
       (\<lambda>s1. let r = freelist s1;
                  s2 = (if r \<noteq> 0 then s1\<lparr>freelist := mem s1 r\<rparr> else s1)
              in thenR (kmem_release s2) (\<lambda>s3. Inr (r, s3)))"

section \<open>proc.h: the process record\<close>

text \<open>
  Modelled from the spec: proc.h (struct proc, struct trapframe, enum procstate) is
  not among the sources.  The spec lists the fields of the process record; the
  functions below use them under the names the sources use.  Of the trap frame only
  the registers read or written by the modelled functions are kept.  A pointer to a
  process is the index of its slot in the process table, a pointer to an open file
  the index of its slot in the file table; \<open>None\<close> is the null pointer.
\<close>

datatype procstate = UNUSED | EMBRYO | SLEEPING | RUNNABLE | RUNNING | ZOMBIE

record trapframe =
  eax :: u32
  esp :: u32

record proc =
  sz :: u32
  pgdir :: u32
  kstack :: u32
  state :: procstate
  pid :: int
  parent :: "nat option"
  tf :: trapframe
  chan :: chan
  killed :: int
  ofile :: "nat option list"
  cwd :: u32
  name :: string

section \<open>syscall.c: fetching system call arguments\<close>

text \<open>
  The user memory of the current process, read in 32-bit words: \<open>uword u a\<close> is the
  \<open>int\<close> stored at user address \<open>a\<close>.  Every dereference of a user address is
  recorded in \<open>accessed\<close>, so that statements about which user memory a function
  touches can be made.
\<close>

record uspace =
  uword :: "u32 \<Rightarrow> u32"
  accessed :: "u32 list"

text \<open>
  Output parameters (\<open>int *ip\<close>, \<open>char **pp\<close>) are passed in with their old value
  and returned with the new one, after the \<open>int\<close> result.
\<close>

definition fetchint :: "proc \<Rightarrow> u32 \<Rightarrow> u32 \<Rightarrow> uspace \<Rightarrow> int \<times> u32 \<times> uspace" where
  "fetchint curproc addr ip u =
     (if addr \<ge> sz curproc \<or> addr + 4 > sz curproc
      then (-1, ip, u)
      else (0, uword u addr, u\<lparr>accessed := accessed u @ [addr]\<rparr>))"

definition argint :: "proc \<Rightarrow> u32 \<Rightarrow> u32 \<Rightarrow> uspace \<Rightarrow> int \<times> u32 \<times> uspace" where
  "argint curproc n ip u = fetchint curproc (esp (tf curproc) + 4 + 4 * n) ip u"

text \<open>
  The local \<open>int i\<close> of \<open>argptr\<close> is not initialised; it is read only after
  \<open>argint\<close> has stored into it, so its initial value (here 0) is never seen.
\<close>

definition argptr :: "proc \<Rightarrow> u32 \<Rightarrow> u32 \<Rightarrow> u32 \<Rightarrow> uspace \<Rightarrow> int \<times> u32 \<times> uspace" where
  "argptr curproc n pp size_n u =
     (case argint curproc n 0 u of (r, i, u1) \<Rightarrow>
        if r < 0 then (-1, pp, u1)
        else if size_n <s 0 \<or> i \<ge> sz curproc \<or> i + size_n > sz curproc
        then (-1, pp, u1)
        else (0, i, u1))"






section \<open>sysfile.c: file descriptors\<close>

text \<open>
  \<open>NOFILE\<close> (param.h, not among the sources) is a parameter: the length of the
  array \<open>ofile\<close> and the bound of the loop.
\<close>

function fdalloc_loop :: "nat \<Rightarrow> nat \<Rightarrow> nat option \<Rightarrow> proc \<Rightarrow> int \<times> proc" where
  "fdalloc_loop NOFILE fd f curproc =
     (if fd < NOFILE
      then (if ofile curproc ! fd = None
            then (int fd, curproc\<lparr>ofile := (ofile curproc)[fd := f]\<rparr>)
            else fdalloc_loop NOFILE (fd + 1) f curproc)
      else (-1, curproc))"
  by pat_completeness auto
termination
  by (relation "measure (\<lambda>(NOFILE, fd, f, curproc). NOFILE - fd)") auto

declare fdalloc_loop.simps [simp del]

definition fdalloc :: "nat \<Rightarrow> nat option \<Rightarrow> proc \<Rightarrow> int \<times> proc" where
  "fdalloc NOFILE f curproc = fdalloc_loop NOFILE 0 f curproc"

section \<open>log.c: the redo log\<close>

text \<open>
  \<open>struct log\<close> with the in-memory header \<open>lh\<close> (\<open>lh_n\<close>, \<open>lh_block\<close>).  The disk is
  seen through the sequence of synchronous block writes (\<open>bwrite\<close>) the log issues.
\<close>

datatype diskop =
    Bwrite_log int        \<comment> \<open>a log data block, by block number\<close>
  | Bwrite_head int "int list"  \<comment> \<open>the header block, with its \<open>n\<close> and block numbers\<close>
  | Bwrite_home int       \<comment> \<open>a home block, by block number\<close>

record log =
  log_lock :: spinlock
  start :: int
  log_size :: int
  outstanding :: int
  committing :: int
  dev :: int
  lh_n :: int
  lh_block :: "int list"
  disk_writes :: "diskop list"

text \<open>
  \<open>begin_op\<close>.  The loop of the source has two branches: while \<open>log.committing\<close> is
  set it sleeps on \<open>&log\<close>, otherwise it increments \<open>log.outstanding\<close> and returns.
\<close>

definition begin_op :: "log \<Rightarrow> log stop + log" where
  "begin_op lg =
     thenR (acquire (log_lock lg))
       (\<lambda>l. let lg1 = lg\<lparr>log_lock := l\<rparr> in
          if committing lg1 \<noteq> 0
          then thenR (release (log_lock lg1))
                 (\<lambda>l'. Inl (Sleep ChanLog (lg1\<lparr>log_lock := l'\<rparr>)))
          else let lg2 = lg1\<lparr>outstanding := outstanding lg1 + 1\<rparr>
               in thenR (release (log_lock lg2)) (\<lambda>l'. Inr (lg2\<lparr>log_lock := l'\<rparr>)))"

text \<open>Copy modified blocks from cache to log: one write per logged block.\<close>

definition write_log :: "log \<Rightarrow> log" where
  "write_log lg =
     lg\<lparr>disk_writes := disk_writes lg @
          map (\<lambda>tail. Bwrite_log (start lg + int tail + 1)) [0 ..< nat (lh_n lg)]\<rparr>"

text \<open>Write the in-memory log header to disk.\<close>

definition write_head :: "log \<Rightarrow> log" where
  "write_head lg =
     lg\<lparr>disk_writes := disk_writes lg @
          [Bwrite_head (lh_n lg) (map (\<lambda>i. lh_block lg ! i) [0 ..< nat (lh_n lg)])]\<rparr>"

text \<open>Copy committed blocks from log to their home location.\<close>

definition install_trans :: "log \<Rightarrow> log" where
  "install_trans lg =
     lg\<lparr>disk_writes := disk_writes lg @
          map (\<lambda>tail. Bwrite_home (lh_block lg ! tail)) [0 ..< nat (lh_n lg)]\<rparr>"

definition commit :: "log \<Rightarrow> log" where
  "commit lg =
     (if lh_n lg > 0
      then write_head ((install_trans (write_head (write_log lg)))\<lparr>lh_n := 0\<rparr>)
      else lg)"

text \<open>
  \<open>end_op\<close>.  In the source the statement after \<open>acquire(&log.lock)\<close> is the call
  \<open>panic("log.committing")\<close>, with no condition in front of it; the statements that
  follow it are modelled as they stand.
\<close>

definition end_op :: "log \<Rightarrow> log stop + log" where
  "end_op lg =
     thenR (acquire (log_lock lg))
       (\<lambda>l. let lg1 = lg\<lparr>log_lock := l\<rparr> in
          thenR (Inl (Panic ''log.committing''))
            (\<lambda>_ :: unit.
               let do_commit = (if outstanding lg1 = 0 then (1 :: int) else 0);
                   lg2 = (if outstanding lg1 = 0 then lg1\<lparr>committing := 1\<rparr> else lg1)
               in thenR (release (log_lock lg2))
                    (\<lambda>l'. let lg3 = lg2\<lparr>log_lock := l'\<rparr> in
                       if do_commit \<noteq> 0
                       then let lg4 = commit lg3 in
                            thenR (acquire (log_lock lg4))
                              (\<lambda>l''. let lg5 = lg4\<lparr>log_lock := l'', committing := 0\<rparr>
                                    in thenR (release (log_lock lg5))
                                         (\<lambda>l3. Inr (lg5\<lparr>log_lock := l3\<rparr>)))
                       else Inr lg3)))"

section \<open>pipe.c\<close>

definition PIPESIZE :: nat where
  "PIPESIZE = 512"

text \<open>\<open>struct pipe\<close>; the array \<open>data\<close> is read and written at \<open>index % PIPESIZE\<close> only.\<close>

record pipe =
  plock :: spinlock
  data :: "nat \<Rightarrow> u8"
  nread :: u32
  nwrite :: u32
  readopen :: int
  writeopen :: int

text \<open>
  The copy loop of \<open>piperead\<close>, from byte \<open>i\<close> on.  The bytes stored to \<open>addr[0]\<close>,
  \<open>addr[1]\<close>, ... are returned as a list, in that order.
\<close>

function piperead_copy :: "int \<Rightarrow> int \<Rightarrow> u8 list \<Rightarrow> pipe \<Rightarrow> int \<times> u8 list \<times> pipe" where
  "piperead_copy i n buf p =
     (if i < n
      then (if nread p = nwrite p
            then (i, buf, p)
            else piperead_copy (i + 1) n
                   (buf @ [data p (unat (nread p) mod PIPESIZE)])
                   (p\<lparr>nread := nread p + 1\<rparr>))
      else (i, buf, p))"
  by pat_completeness auto
termination
  by (relation "measure (\<lambda>(i, n, buf, p). nat (n - i))") auto

declare piperead_copy.simps [simp del]


section \<open>file.h and the kernel state\<close>

text \<open>
  Modelled from the spec: file.h (struct file) is not among the sources.  The spec
  describes an open file as a reference-counted tagged value with the variants NONE,
  PIPE (pipe reference, readable, writable) and INODE (inode reference, offset,
  readable, writable); the fields carry the names file.c uses.
\<close>

datatype fdtype = FD_NONE | FD_PIPE | FD_INODE

record file_t =
  ftype :: fdtype
  ref :: int
  readable :: int
  writable :: int
  fpipe :: u32
  ip :: u32
  off :: u32

text \<open>
  The kernel state the modelled functions work on: the allocator \<open>kmem\<close>, the file
  table \<open>ftable\<close> (its lock and its array \<open>file[NFILE]\<close>), the pipes in kernel
  memory (\<open>pipes s pa\<close> is the \<open>struct pipe\<close> at address \<open>pa\<close>), the log, and the
  process table \<open>ptable\<close> (its lock and its array \<open>proc[NPROC]\<close>) with \<open>nextpid\<close> and
  \<open>initproc\<close>.
\<close>

record kernel =
  kmem :: kmem
  ftable_lock :: spinlock
  ftable :: "file_t list"
  pipes :: "u32 \<Rightarrow> pipe"
  klog :: log
  ptable_lock :: spinlock
  ptable :: "proc list"
  nextpid :: int
  initproc :: "nat option"

section \<open>proc.c: sleep and wakeup\<close>

text \<open>
  A pointer to a process is the index of its slot in \<open>ptable.proc\<close>; \<open>cp\<close> is the slot
  of \<open>myproc()\<close>.  \<open>wakeup1\<close> makes every process that sleeps on the channel runnable,
  and \<open>wakeup\<close> does so under \<open>ptable.lock\<close>.
\<close>

definition wakeup1 :: "chan \<Rightarrow> proc list \<Rightarrow> proc list" where
  "wakeup1 c ps = map (\<lambda>p. if state p = SLEEPING \<and> chan p = c then p\<lparr>state := RUNNABLE\<rparr> else p) ps"

definition wakeup :: "chan \<Rightarrow> kernel \<Rightarrow> 's stop + kernel" where
  "wakeup c s =
     thenR (acquire (ptable_lock s))
       (\<lambda>l. let s1 = s\<lparr>ptable_lock := l, ptable := wakeup1 c (ptable s)\<rparr>
            in thenR (release (ptable_lock s1)) (\<lambda>l'. Inr (s1\<lparr>ptable_lock := l'\<rparr>)))"

text \<open>
  The locks that the modelled code passes to \<open>sleep\<close>: \<open>ptable.lock\<close> and the lock of
  the pipe at an address.
\<close>

datatype lockref = PtableLock | PipeLock u32

definition lock_of :: "lockref \<Rightarrow> kernel \<Rightarrow> spinlock" where
  "lock_of lk s = (case lk of PtableLock \<Rightarrow> ptable_lock s | PipeLock pa \<Rightarrow> plock (pipes s pa))"

definition lock_upd :: "lockref \<Rightarrow> spinlock \<Rightarrow> kernel \<Rightarrow> kernel" where
  "lock_upd lk l s =
     (case lk of PtableLock \<Rightarrow> s\<lparr>ptable_lock := l\<rparr>
      | PipeLock pa \<Rightarrow> s\<lparr>pipes := (pipes s)(pa := (pipes s pa)\<lparr>plock := l\<rparr>)\<rparr>)"

text \<open>
  \<open>sched\<close>.  The source holds its four checks and ends there.  The checks on
  \<open>ptable.lock\<close> and on the state of the process are modelled; the ones on the
  interrupt state of the processor (\<open>ncli\<close>, \<open>FL_IF\<close>) are not.  After the checks the
  thread gives up the processor: the caller of \<open>sched\<close> ends in \<open>Sleep\<close> or \<open>Zombie\<close>.
\<close>

definition sched :: "nat \<Rightarrow> kernel \<Rightarrow> 's stop + unit" where
  "sched cp s =
     (if \<not> holding (ptable_lock s) then Inl (Panic ''sched ptable.lock'')
      else if state (ptable s ! cp) = RUNNING then Inl (Panic ''sched running'')
      else Inr ())"

text \<open>
  \<open>sleep(chan, lk)\<close>, up to its call of \<open>sched\<close>.  \<open>myproc()\<close> and \<open>lk\<close> are never null
  in the calls that are modelled.
\<close>

definition sleep :: "nat \<Rightarrow> chan \<Rightarrow> lockref \<Rightarrow> kernel \<Rightarrow> kernel stop + 'a" where
  "sleep cp c lk s =
     thenR (if lk \<noteq> PtableLock
            then thenR (acquire (ptable_lock s))
                   (\<lambda>l. let s1 = s\<lparr>ptable_lock := l\<rparr>
                        in thenR (release (lock_of lk s1)) (\<lambda>l'. Inr (lock_upd lk l' s1)))
            else Inr s)
       (\<lambda>s2. let s3 = s2\<lparr>ptable := (ptable s2)[cp := (ptable s2 ! cp)\<lparr>chan := c, state := SLEEPING\<rparr>]\<rparr>
             in thenR (sched cp s3) (\<lambda>_. Inl (Sleep c s3)))"

section \<open>file.c: allocation and reference counts\<close>

function filealloc_loop :: "nat \<Rightarrow> file_t list \<Rightarrow> nat option \<times> file_t list" where
  "filealloc_loop f ft =
     (if f < length ft
      then (if ref (ft ! f) = 0
            then (Some f, ft[f := (ft ! f)\<lparr>ref := 1\<rparr>])
            else filealloc_loop (f + 1) ft)
      else (None, ft))"
  by pat_completeness auto
termination
  by (relation "measure (\<lambda>(f, ft). length ft - f)") auto

declare filealloc_loop.simps [simp del]

definition filealloc :: "kernel \<Rightarrow> 's stop + (nat option \<times> kernel)" where
  "filealloc s =
     thenR (acquire (ftable_lock s))
       (\<lambda>l. case filealloc_loop 0 (ftable s) of (f, ft) \<Rightarrow>
          thenR (release l) (\<lambda>l'. Inr (f, s\<lparr>ftable := ft, ftable_lock := l'\<rparr>)))"

definition filedup :: "nat \<Rightarrow> kernel \<Rightarrow> 's stop + (nat \<times> kernel)" where
  "filedup f s =
     thenR (acquire (ftable_lock s))
       (\<lambda>l. if ref (ftable s ! f) < 1
          then Inl (Panic ''filedup'')
          else thenR (release l)
                 (\<lambda>l'. Inr (f, s\<lparr>ftable := (ftable s)[f := (ftable s ! f)\<lparr>ref := ref (ftable s ! f) + 1\<rparr>],
                                  ftable_lock := l'\<rparr>)))"

text \<open>
  \<open>pipeclose\<close> (pipe.c), on the pipe at address \<open>pa\<close>.  When both ends are closed
  the page that holds the pipe is handed to \<open>kfree\<close>.
\<close>

definition pipeclose :: "memlayout \<Rightarrow> u32 \<Rightarrow> int \<Rightarrow> kernel \<Rightarrow> 's stop + kernel" where
  "pipeclose L pa writable_arg s =
     thenR (acquire (plock (pipes s pa)))
       (\<lambda>l. let s1 = lock_upd (PipeLock pa) l s in
          thenR (if writable_arg \<noteq> 0
                 then wakeup (ChanNread pa) (s1\<lparr>pipes := (pipes s1)(pa := (pipes s1 pa)\<lparr>writeopen := 0\<rparr>)\<rparr>)
                 else wakeup (ChanNwrite pa) (s1\<lparr>pipes := (pipes s1)(pa := (pipes s1 pa)\<lparr>readopen := 0\<rparr>)\<rparr>))
            (\<lambda>s2. if readopen (pipes s2 pa) = 0 \<and> writeopen (pipes s2 pa) = 0
                  then thenR (release (plock (pipes s2 pa)))
                         (\<lambda>l'. let s3 = lock_upd (PipeLock pa) l' s2
                              in thenR (kfree L pa (kmem s3)) (\<lambda>k. Inr (s3\<lparr>kmem := k\<rparr>)))
                  else thenR (release (plock (pipes s2 pa)))
                         (\<lambda>l'. Inr (lock_upd (PipeLock pa) l' s2))))"

text \<open>
  \<open>fileclose\<close>.  \<open>iput\<close> (fs.c) is a parameter of the model: the inode layer is not
  modelled.
\<close>

definition fileclose ::
  "memlayout \<Rightarrow> (u32 \<Rightarrow> kernel \<Rightarrow> kernel stop + kernel) \<Rightarrow> nat \<Rightarrow> kernel \<Rightarrow> kernel stop + kernel" where
  "fileclose L iput f s =
     thenR (acquire (ftable_lock s))
       (\<lambda>l. let s1 = s\<lparr>ftable_lock := l\<rparr>; fl = ftable s1 ! f in
          if ref fl < 1 then Inl (Panic ''fileclose'')
          else if ref fl - 1 > 0
          then thenR (release (ftable_lock s1))
                 (\<lambda>l'. Inr (s1\<lparr>ftable := (ftable s1)[f := fl\<lparr>ref := ref fl - 1\<rparr>],
                              ftable_lock := l'\<rparr>))
          else let ff = fl\<lparr>ref := ref fl - 1\<rparr>;
                   s2 = s1\<lparr>ftable := (ftable s1)[f := ff\<lparr>ref := 0, ftype := FD_NONE\<rparr>]\<rparr>
               in thenR (release (ftable_lock s2))
                    (\<lambda>l'. let s3 = s2\<lparr>ftable_lock := l'\<rparr> in
                       if ftype ff = FD_PIPE then pipeclose L (fpipe ff) (writable ff) s3
                       else if ftype ff = FD_INODE
                       then thenR (inS (\<lambda>lg. s3\<lparr>klog := lg\<rparr>) (begin_op (klog s3)))
                              (\<lambda>lg. thenR (iput (ip ff) (s3\<lparr>klog := lg\<rparr>))
                                 (\<lambda>s4. thenR (inS (\<lambda>lg. s4\<lparr>klog := lg\<rparr>) (end_op (klog s4)))
                                    (\<lambda>lg'. Inr (s4\<lparr>klog := lg'\<rparr>))))
                       else Inr s3))"

text \<open>
  \<open>pipealloc\<close> (pipe.c).  The results are the \<open>int\<close> returned and the file pointers
  stored to \<open>*f0\<close> and \<open>*f1\<close>.  \<open>pipealloc_bad\<close> is the code at the label \<open>bad\<close>.
\<close>

definition pipealloc_bad ::
  "memlayout \<Rightarrow> (u32 \<Rightarrow> kernel \<Rightarrow> kernel stop + kernel) \<Rightarrow> u32 \<Rightarrow> nat option \<Rightarrow> nat option
     \<Rightarrow> kernel \<Rightarrow> kernel stop + (int \<times> nat option \<times> nat option \<times> kernel)" where
  "pipealloc_bad L iput p f0 f1 s =
     thenR (if p \<noteq> 0 then thenR (kfree L p (kmem s)) (\<lambda>k. Inr (s\<lparr>kmem := k\<rparr>)) else Inr s)
       (\<lambda>s1. thenR (case f0 of Some f \<Rightarrow> fileclose L iput f s1 | None \<Rightarrow> Inr s1)
          (\<lambda>s2. thenR (case f1 of Some f \<Rightarrow> fileclose L iput f s2 | None \<Rightarrow> Inr s2)
             (\<lambda>s3. Inr (-1, f0, f1, s3))))"

definition pipealloc ::
  "memlayout \<Rightarrow> (u32 \<Rightarrow> kernel \<Rightarrow> kernel stop + kernel)
     \<Rightarrow> kernel \<Rightarrow> kernel stop + (int \<times> nat option \<times> nat option \<times> kernel)" where
  "pipealloc L iput s =
     thenR (filealloc s)
       (\<lambda>(f0, s1). case f0 of None \<Rightarrow> pipealloc_bad L iput 0 None None s1
          | Some r0 \<Rightarrow>
              thenR (filealloc s1)
                (\<lambda>(f1, s2). case f1 of None \<Rightarrow> pipealloc_bad L iput 0 f0 None s2
                   | Some r1 \<Rightarrow>
                       thenR (kalloc (kmem s2))
                         (\<lambda>(p, k). let s3 = s2\<lparr>kmem := k\<rparr> in
                            if p = 0 then pipealloc_bad L iput p f0 f1 s3
                            else let pp = (pipes s3 p)\<lparr>readopen := 1, writeopen := 1,
                                             nwrite := 0, nread := 0, plock := Unlocked\<rparr>;
                                     s4 = s3\<lparr>pipes := (pipes s3)(p := pp)\<rparr>;
                                     s5 = s4\<lparr>ftable := (ftable s4)[r0 := (ftable s4 ! r0)
                                             \<lparr>ftype := FD_PIPE, readable := 1, writable := 0, fpipe := p\<rparr>]\<rparr>;
                                     s6 = s5\<lparr>ftable := (ftable s5)[r1 := (ftable s5 ! r1)
                                             \<lparr>ftype := FD_PIPE, readable := 0, writable := 1, fpipe := p\<rparr>]\<rparr>
                                 in Inr (0, f0, f1, s6))))"

text \<open>
  \<open>piperead\<close> and \<open>pipewrite\<close> on the pipe at address \<open>pa\<close>, for the process in slot
  \<open>cp\<close>.  The bytes \<open>piperead\<close> stores to \<open>addr\<close> are returned as a list; the bytes
  \<open>pipewrite\<close> reads from \<open>addr\<close> are given as a list.
\<close>

definition piperead :: "nat \<Rightarrow> u32 \<Rightarrow> int \<Rightarrow> kernel \<Rightarrow> kernel stop + (int \<times> u8 list \<times> kernel)" where
  "piperead cp pa n s =
     thenR (acquire (plock (pipes s pa)))
       (\<lambda>l. let s1 = lock_upd (PipeLock pa) l s in
          if nread (pipes s1 pa) = nwrite (pipes s1 pa) \<and> writeopen (pipes s1 pa) \<noteq> 0
          then (if killed (ptable s1 ! cp) \<noteq> 0
                then thenR (release (plock (pipes s1 pa)))
                       (\<lambda>l'. Inr (-1, [], lock_upd (PipeLock pa) l' s1))
                else sleep cp (ChanNread pa) (PipeLock pa) s1)
          else (case piperead_copy 0 n [] (pipes s1 pa) of (i, buf, p2) \<Rightarrow>
                  thenR (wakeup (ChanNwrite pa) (s1\<lparr>pipes := (pipes s1)(pa := p2)\<rparr>))
                    (\<lambda>s2. thenR (release (plock (pipes s2 pa)))
                            (\<lambda>l'. Inr (i, buf, lock_upd (PipeLock pa) l' s2)))))"

text \<open>
  The loop of \<open>pipewrite\<close> from byte \<open>i\<close> on, with \<open>p->lock\<close> held.  A writer that
  sleeps on a full pipe resumes in this loop at the same \<open>i\<close>, so the state in
  \<open>Sleep\<close> carries \<open>i\<close>.
\<close>

function pipewrite_loop ::
  "nat \<Rightarrow> u32 \<Rightarrow> u8 list \<Rightarrow> int \<Rightarrow> int \<Rightarrow> kernel \<Rightarrow> (int \<times> kernel) stop + (int \<times> kernel)" where
  "pipewrite_loop cp pa addr n i s =
     (if i < n
      then (if nwrite (pipes s pa) = nread (pipes s pa) + of_nat PIPESIZE
            then (if readopen (pipes s pa) = 0 \<or> killed (ptable s ! cp) \<noteq> 0
                  then thenR (release (plock (pipes s pa)))
                         (\<lambda>l'. Inr (-1, lock_upd (PipeLock pa) l' s))
                  else thenR (wakeup (ChanNread pa) s)
                         (\<lambda>s1. inS (\<lambda>s'. (i, s')) (sleep cp (ChanNwrite pa) (PipeLock pa) s1)))
            else pipewrite_loop cp pa addr n (i + 1)
                   (s\<lparr>pipes := (pipes s)(pa := (pipes s pa)
                         \<lparr>data := (data (pipes s pa))(unat (nwrite (pipes s pa)) mod PIPESIZE := addr ! nat i),
                          nwrite := nwrite (pipes s pa) + 1\<rparr>)\<rparr>))
      else thenR (wakeup (ChanNread pa) s)
             (\<lambda>s1. thenR (release (plock (pipes s1 pa)))
                     (\<lambda>l'. Inr (n, lock_upd (PipeLock pa) l' s1))))"
  by pat_completeness auto
termination
  by (relation "measure (\<lambda>(cp, pa, addr, n, i, s). nat (n - i))") auto

declare pipewrite_loop.simps [simp del]

definition pipewrite ::
  "nat \<Rightarrow> u32 \<Rightarrow> u8 list \<Rightarrow> int \<Rightarrow> kernel \<Rightarrow> (int \<times> kernel) stop + (int \<times> kernel)" where
  "pipewrite cp pa addr n s =
     thenR (acquire (plock (pipes s pa)))
       (\<lambda>l. pipewrite_loop cp pa addr n 0 (lock_upd (PipeLock pa) l s))"

section \<open>sysfile.c: system calls on descriptors\<close>

text \<open>
  System calls run on behalf of the process in slot \<open>cp\<close> of the process table
  (\<open>myproc()\<close>), whose user memory is \<open>u\<close>.
\<close>

definition argfd :: "nat \<Rightarrow> proc \<Rightarrow> u32 \<Rightarrow> uspace \<Rightarrow> int \<times> int \<times> nat option \<times> uspace" where
  "argfd NOFILE curproc n u =
     (case argint curproc n 0 u of (r, fdw, u1) \<Rightarrow>
        let fd = sint fdw in
        if r < 0 then (-1, fd, None, u1)
        else if fd < 0 \<or> fd \<ge> int NOFILE \<or> ofile curproc ! nat fd = None
        then (-1, fd, None, u1)
        else (0, fd, ofile curproc ! nat fd, u1))"

definition sys_dup :: "nat \<Rightarrow> nat \<Rightarrow> uspace \<Rightarrow> kernel \<Rightarrow> kernel stop + (int \<times> uspace \<times> kernel)" where
  "sys_dup NOFILE cp u s =
     (case argfd NOFILE (ptable s ! cp) 0 u of (r, fd0, f, u1) \<Rightarrow>
        if r < 0 then Inr (-1, u1, s)
        else (case fdalloc NOFILE f (ptable s ! cp) of (fd, curproc') \<Rightarrow>
                if fd < 0 then Inr (-1, u1, s)
                else thenR (filedup (the f) (s\<lparr>ptable := (ptable s)[cp := curproc']\<rparr>))
                       (\<lambda>(_, s1). Inr (fd, u1, s1))))"

definition sys_pipe ::
  "nat \<Rightarrow> memlayout \<Rightarrow> (u32 \<Rightarrow> kernel \<Rightarrow> kernel stop + kernel) \<Rightarrow> nat \<Rightarrow> uspace \<Rightarrow> kernel
     \<Rightarrow> kernel stop + (int \<times> uspace \<times> kernel)" where
  "sys_pipe NOFILE L iput cp u s =
     (case argptr (ptable s ! cp) 0 0 8 u of (r, fd, u1) \<Rightarrow>
        if r < 0 then Inr (-1, u1, s)
        else thenR (pipealloc L iput s)
               (\<lambda>(r', rf, wf, s1).
                  if r' < 0 then Inr (-1, u1, s1)
                  else (case fdalloc NOFILE rf (ptable s1 ! cp) of (fd0, cur1) \<Rightarrow>
                     let s2 = s1\<lparr>ptable := (ptable s1)[cp := cur1]\<rparr> in
                     if fd0 < 0
                     then thenR (fileclose L iput (the rf) s2)
                            (\<lambda>s3. thenR (fileclose L iput (the wf) s3) (\<lambda>s4. Inr (-1, u1, s4)))
                     else (case fdalloc NOFILE wf (ptable s2 ! cp) of (fd1, cur2) \<Rightarrow>
                        let s3 = s2\<lparr>ptable := (ptable s2)[cp := cur2]\<rparr> in
                        if fd1 < 0
                        then let s4 = s3\<lparr>ptable := (ptable s3)[cp := (ptable s3 ! cp)
                                        \<lparr>ofile := (ofile (ptable s3 ! cp))[nat fd0 := None]\<rparr>]\<rparr>
                             in thenR (fileclose L iput (the rf) s4)
                                  (\<lambda>s5. thenR (fileclose L iput (the wf) s5) (\<lambda>s6. Inr (-1, u1, s6)))
                        else Inr (0,
                               u1\<lparr>uword := (uword u1)(fd := word_of_int fd0, fd + 4 := word_of_int fd1),
                                  accessed := accessed u1 @ [fd, fd + 4]\<rparr>,
                               s3)))))"








section \<open>proc.c: fork, exit and wait\<close>

text \<open>
  The functions are modelled statement by statement as they stand in the source.
  \<open>NPROC\<close> is the length of \<open>ptable\<close>.
\<close>

definition procptr_chan :: "nat option \<Rightarrow> chan" where
  "procptr_chan q = (case q of None \<Rightarrow> NoChan | Some i \<Rightarrow> ChanProc i)"

text \<open>The scan of \<open>allocproc\<close> for an \<open>UNUSED\<close> slot, from slot \<open>i\<close> on.\<close>

function allocproc_scan :: "nat \<Rightarrow> proc list \<Rightarrow> nat option" where
  "allocproc_scan i ps =
     (if i < length ps
      then (if state (ps ! i) = UNUSED then Some i else allocproc_scan (i + 1) ps)
      else None)"
  by pat_completeness auto
termination
  by (relation "measure (\<lambda>(i, ps). length ps - i)") auto

declare allocproc_scan.simps [simp del]

text \<open>
  \<open>allocproc\<close>.  At the label \<open>found\<close> the source goes on with the allocation of the
  kernel stack: it holds no statement that sets \<open>p->state\<close> or \<open>p->pid\<close> there and no
  \<open>release(&ptable.lock)\<close>.  The layout of the new kernel stack (trap frame, context)
  is not modelled.
\<close>

definition allocproc :: "kernel \<Rightarrow> 's stop + (nat option \<times> kernel)" where
  "allocproc s =
     thenR (acquire (ptable_lock s))
       (\<lambda>l. let s1 = s\<lparr>ptable_lock := l\<rparr> in
          case allocproc_scan 0 (ptable s1) of
            None \<Rightarrow> thenR (release (ptable_lock s1)) (\<lambda>l'. Inr (None, s1\<lparr>ptable_lock := l'\<rparr>))
          | Some i \<Rightarrow>
              thenR (kalloc (kmem s1))
                (\<lambda>(ks, k).
                   let s2 = s1\<lparr>kmem := k, ptable := (ptable s1)[i := (ptable s1 ! i)\<lparr>kstack := ks\<rparr>]\<rparr>
                   in if ks = 0
                      then Inr (None, s2\<lparr>ptable := (ptable s2)[i := (ptable s2 ! i)\<lparr>state := UNUSED\<rparr>]\<rparr>)
                      else Inr (Some i, s2)))"

text \<open>The loop of \<open>fork\<close> that duplicates the open files of \<open>curproc\<close> into \<open>np\<close>.\<close>

function fork_files :: "nat \<Rightarrow> nat \<Rightarrow> nat \<Rightarrow> nat \<Rightarrow> kernel \<Rightarrow> 's stop + kernel" where
  "fork_files NOFILE cp np i s =
     (if i < NOFILE
      then (case ofile (ptable s ! cp) ! i of
              None \<Rightarrow> fork_files NOFILE cp np (i + 1) s
            | Some f \<Rightarrow>
                thenR (filedup f s)
                  (\<lambda>(f', s1). fork_files NOFILE cp np (i + 1)
                     (s1\<lparr>ptable := (ptable s1)[np := (ptable s1 ! np)
                            \<lparr>ofile := (ofile (ptable s1 ! np))[i := Some f']\<rparr>]\<rparr>)))
      else Inr s)"
  by pat_completeness auto
termination
  by (relation "measure (\<lambda>(NOFILE, cp, np, i, s). NOFILE - i)") auto

declare fork_files.simps [simp del]

text \<open>
  \<open>fork\<close>, for the process in slot \<open>cp\<close>.  \<open>copyuvm\<close> (vm.c) is a parameter that
  works on the allocator: it returns the new page directory, or 0.  \<open>idup\<close> returns
  its argument; the reference count of the inode is not modelled.  The source holds
  no statement that sets \<open>np->sz\<close> or \<open>np->parent\<close>.  The brace that closes the block
  \<open>if((np->pgdir = copyuvm(...)) == 0){ ... return -1;\<close> is missing from the source;
  the model closes the block after \<open>return -1\<close>, where the indentation has it.
\<close>

definition fork ::
  "memlayout \<Rightarrow> nat \<Rightarrow> (u32 \<Rightarrow> u32 \<Rightarrow> kmem \<Rightarrow> kernel stop + (u32 \<times> kmem)) \<Rightarrow> nat \<Rightarrow> kernel
     \<Rightarrow> kernel stop + (int \<times> kernel)" where
  "fork L NOFILE copyuvm cp s =
     thenR (allocproc s)
       (\<lambda>(r, s1). case r of None \<Rightarrow> Inr (-1, s1)
          | Some np \<Rightarrow>
              thenR (copyuvm (pgdir (ptable s1 ! cp)) (sz (ptable s1 ! cp)) (kmem s1))
                (\<lambda>(d, k).
                   let s2 = s1\<lparr>kmem := k, ptable := (ptable s1)[np := (ptable s1 ! np)\<lparr>pgdir := d\<rparr>]\<rparr>
                   in if d = 0
                      then thenR (kfree L (kstack (ptable s2 ! np)) (kmem s2))
                             (\<lambda>k'. Inr (-1, s2\<lparr>kmem := k',
                                   ptable := (ptable s2)[np := (ptable s2 ! np)\<lparr>kstack := 0, state := UNUSED\<rparr>]\<rparr>))
                      else let s3 = s2\<lparr>ptable := (ptable s2)[np := (ptable s2 ! np)
                                        \<lparr>tf := (tf (ptable s2 ! cp))\<lparr>eax := 0\<rparr>\<rparr>]\<rparr>
                           in thenR (fork_files NOFILE cp np 0 s3)
                                (\<lambda>s4. let s5 = s4\<lparr>ptable := (ptable s4)[np := (ptable s4 ! np)
                                                  \<lparr>cwd := cwd (ptable s4 ! cp), name := name (ptable s4 ! cp)\<rparr>]\<rparr>;
                                            pid' = pid (ptable s5 ! np)
                                        in thenR (acquire (ptable_lock s5))
                                             (\<lambda>l. let s6 = s5\<lparr>ptable_lock := l,
                                                        ptable := (ptable s5)[np := (ptable s5 ! np)\<lparr>state := RUNNABLE\<rparr>]\<rparr>
                                                  in thenR (release (ptable_lock s6))
                                                       (\<lambda>l'. Inr (pid', s6\<lparr>ptable_lock := l'\<rparr>))))))"

text \<open>
  The scan of \<open>wait\<close> over the process table from slot \<open>i\<close> on: the first zombie
  child of \<open>cp\<close> if there is one, and \<open>havekids\<close>.
\<close>

function wait_scan :: "nat \<Rightarrow> nat \<Rightarrow> int \<Rightarrow> proc list \<Rightarrow> nat option \<times> int" where
  "wait_scan cp i havekids ps =
     (if i < length ps
      then (if parent (ps ! i) \<noteq> Some cp then wait_scan cp (i + 1) havekids ps
            else if state (ps ! i) = ZOMBIE then (Some i, 1)
            else wait_scan cp (i + 1) 1 ps)
      else (None, havekids))"
  by pat_completeness auto
termination
  by (relation "measure (\<lambda>(cp, i, havekids, ps). length ps - i)") auto

declare wait_scan.simps [simp del]

text \<open>
  \<open>wait\<close>, for the process in slot \<open>cp\<close>.  For a zombie child the source calls
  \<open>kfree(p->kstack)\<close> and then clears \<open>pid\<close>, \<open>parent\<close>, \<open>name\<close>, \<open>killed\<close> and
  \<open>state\<close>; it holds no call of \<open>freevm\<close>.
\<close>

definition wait :: "memlayout \<Rightarrow> nat \<Rightarrow> kernel \<Rightarrow> kernel stop + (int \<times> kernel)" where
  "wait L cp s =
     thenR (acquire (ptable_lock s))
       (\<lambda>l. let s1 = s\<lparr>ptable_lock := l\<rparr> in
          case wait_scan cp 0 0 (ptable s1) of
            (Some i, havekids) \<Rightarrow>
              let pid' = pid (ptable s1 ! i) in
              thenR (kfree L (kstack (ptable s1 ! i)) (kmem s1))
                (\<lambda>k. let s2 = s1\<lparr>kmem := k, ptable := (ptable s1)[i := (ptable s1 ! i)
                                 \<lparr>pid := 0, parent := None, name := [], killed := 0, state := UNUSED\<rparr>]\<rparr>
                      in thenR (release (ptable_lock s2)) (\<lambda>l'. Inr (pid', s2\<lparr>ptable_lock := l'\<rparr>)))
          | (None, havekids) \<Rightarrow>
              if havekids = 0 \<or> killed (ptable s1 ! cp) \<noteq> 0
              then thenR (release (ptable_lock s1)) (\<lambda>l'. Inr (-1, s1\<lparr>ptable_lock := l'\<rparr>))
              else sleep cp (ChanProc cp) PtableLock s1)"

text \<open>The loop of \<open>exit\<close> that closes the open files of \<open>curproc\<close>.\<close>

function exit_files ::
  "memlayout \<Rightarrow> (u32 \<Rightarrow> kernel \<Rightarrow> kernel stop + kernel) \<Rightarrow> nat \<Rightarrow> nat \<Rightarrow> nat \<Rightarrow> kernel
     \<Rightarrow> kernel stop + kernel" where
  "exit_files L iput NOFILE cp fd s =
     (if fd < NOFILE
      then (case ofile (ptable s ! cp) ! fd of
              None \<Rightarrow> exit_files L iput NOFILE cp (fd + 1) s
            | Some f \<Rightarrow>
                thenR (fileclose L iput f s)
                  (\<lambda>s1. exit_files L iput NOFILE cp (fd + 1)
                     (s1\<lparr>ptable := (ptable s1)[cp := (ptable s1 ! cp)
                            \<lparr>ofile := (ofile (ptable s1 ! cp))[fd := None]\<rparr>]\<rparr>)))
      else Inr s)"
  by pat_completeness auto
termination
  by (relation "measure (\<lambda>(L, iput, NOFILE, cp, fd, s). NOFILE - fd)") auto

declare exit_files.simps [simp del]

text \<open>The loop of \<open>exit\<close> that passes abandoned children to \<open>initproc\<close>.\<close>

function exit_reparent :: "nat \<Rightarrow> nat option \<Rightarrow> nat \<Rightarrow> proc list \<Rightarrow> proc list" where
  "exit_reparent cp init i ps =
     (if i < length ps
      then (if parent (ps ! i) = Some cp
            then let ps1 = ps[i := (ps ! i)\<lparr>parent := init\<rparr>];
                     ps2 = (if state (ps1 ! i) = ZOMBIE then wakeup1 (procptr_chan init) ps1 else ps1)
                 in exit_reparent cp init (i + 1) ps2
            else exit_reparent cp init (i + 1) ps)
      else ps)"
  by pat_completeness auto
termination
  by (relation "measure (\<lambda>(cp, init, i, ps). length ps - i)") (auto simp: wakeup1_def)

declare exit_reparent.simps [simp del]

text \<open>
  \<open>exit\<close>, for the process in slot \<open>cp\<close>.  After closing the files the source sets
  \<open>curproc->cwd = 0\<close>; it holds no \<open>iput\<close> of the working directory.
\<close>

definition exit ::
  "memlayout \<Rightarrow> (u32 \<Rightarrow> kernel \<Rightarrow> kernel stop + kernel) \<Rightarrow> nat \<Rightarrow> nat \<Rightarrow> kernel
     \<Rightarrow> kernel stop + unit" where
  "exit L iput NOFILE cp s =
     (if Some cp = initproc s then Inl (Panic ''init exiting'')
      else thenR (exit_files L iput NOFILE cp 0 s)
             (\<lambda>s1. let s2 = s1\<lparr>ptable := (ptable s1)[cp := (ptable s1 ! cp)\<lparr>cwd := 0\<rparr>]\<rparr>
                  in thenR (acquire (ptable_lock s2))
                       (\<lambda>l. let ps1 = wakeup1 (procptr_chan (parent (ptable s2 ! cp))) (ptable s2);
                                 ps2 = exit_reparent cp (initproc s2) 0 ps1;
                                 ps3 = ps2[cp := (ps2 ! cp)\<lparr>state := ZOMBIE\<rparr>];
                                 s3 = s2\<lparr>ptable_lock := l, ptable := ps3\<rparr>
                             in thenR (sched cp s3) (\<lambda>_. Inl (Zombie s3)))))"


section \<open>vm.c: page tables\<close>

text \<open>
  Modelled from the spec: the macros of mmu.h and memlayout.h that vm.c uses are not
  among the sources.  The spec describes a two-level page table of 1024 by 1024
  entries over 4 KiB pages, whose entries carry a physical frame address and the
  present, writable and user bits, and a kernel region that starts at \<open>KERNBASE\<close> and
  is mapped identically to physical memory.  The positions of the bits are those of
  the x86 page-table entry.
\<close>

definition PTE_P :: u32 where "PTE_P = 0x001"
definition PTE_W :: u32 where "PTE_W = 0x002"
definition PTE_U :: u32 where "PTE_U = 0x004"

definition PDX :: "u32 \<Rightarrow> u32" where
  "PDX va = drop_bit 22 va AND 0x3FF"

definition PTX :: "u32 \<Rightarrow> u32" where
  "PTX va = drop_bit 12 va AND 0x3FF"

definition PTE_ADDR :: "u32 \<Rightarrow> u32" where
  "PTE_ADDR pte = pte AND NOT 0xFFF"

definition PGROUNDDOWN :: "u32 \<Rightarrow> u32" where
  "PGROUNDDOWN a = a AND NOT (of_nat PGSIZE - 1)"

definition P2V :: "memlayout \<Rightarrow> u32 \<Rightarrow> u32" where
  "P2V L a = a + KERNBASE L"

text \<open>
  Page directories and page tables live in the kernel memory \<open>mem\<close> of the allocator
  state: entry \<open>i\<close> of the table at address \<open>t\<close> is the word at \<open>t + 4 * i\<close>.
  \<open>walkpgdir\<close> returns the address of the page-table entry for \<open>va\<close>, or 0.
\<close>

definition walkpgdir :: "memlayout \<Rightarrow> u32 \<Rightarrow> u32 \<Rightarrow> int \<Rightarrow> kmem \<Rightarrow> 's stop + (u32 \<times> kmem)" where
  "walkpgdir L pgd va alloc k =
     (let pde = pgd + 4 * PDX va in
      if mem k pde AND PTE_P \<noteq> 0
      then Inr (P2V L (PTE_ADDR (mem k pde)) + 4 * PTX va, k)
      else if alloc = 0 then Inr (0, k)
      else thenR (kalloc k)
             (\<lambda>(pgtab, k1).
                if pgtab = 0 then Inr (0, k1)
                else let k2 = k1\<lparr>mem := memset_words (mem k1) pgtab 0 PGSIZE\<rparr>;
                         k3 = k2\<lparr>mem := (mem k2)(pde := V2P L pgtab OR PTE_P OR PTE_W OR PTE_U)\<rparr>
                     in Inr (pgtab + 4 * PTX va, k3)))"

text \<open>
  The loop of \<open>mappages\<close>.  It ends when \<open>a\<close> reaches \<open>last\<close> (here \<open>last_a\<close>); the result is \<open>None\<close>
  if it never does.
\<close>

partial_function (option) mappages_loop ::
  "memlayout \<Rightarrow> u32 \<Rightarrow> u32 \<Rightarrow> u32 \<Rightarrow> u32 \<Rightarrow> u32 \<Rightarrow> kmem \<Rightarrow> (unit stop + (int \<times> kmem)) option" where
  "mappages_loop L pgd a last_a pa perm k =
     (case walkpgdir L pgd a 1 k of
        Inl e \<Rightarrow> Some (Inl e)
      | Inr (pte, k1) \<Rightarrow>
          if pte = 0 then Some (Inr (-1, k1))
          else if mem k1 pte AND PTE_P \<noteq> 0 then Some (Inl (Panic ''remap''))
          else let k2 = k1\<lparr>mem := (mem k1)(pte := pa OR perm OR PTE_P)\<rparr>
               in if a = last_a then Some (Inr (0, k2))
                  else mappages_loop L pgd (a + of_nat PGSIZE) last_a (pa + of_nat PGSIZE) perm k2)"

definition mappages ::
  "memlayout \<Rightarrow> u32 \<Rightarrow> u32 \<Rightarrow> u32 \<Rightarrow> u32 \<Rightarrow> u32 \<Rightarrow> kmem \<Rightarrow> (unit stop + (int \<times> kmem)) option" where
  "mappages L pgd va size_n pa perm k =
     mappages_loop L pgd (PGROUNDDOWN va) (PGROUNDDOWN (va + size_n - 1)) pa perm k"


subsection \<open>What a page table maps\<close>

text \<open>
  The notions in which the statements about \<open>mappages\<close> are made.  \<open>entry L k pgd va\<close>
  is the page-table entry that a two-level walk from the page directory at \<open>pgd\<close>
  finds for \<open>va\<close> (0 when the page directory entry is not present); the page of
  \<open>va\<close> is mapped when this entry has \<open>PTE_P\<close> set.
\<close>

definition entry :: "memlayout \<Rightarrow> kmem \<Rightarrow> u32 \<Rightarrow> u32 \<Rightarrow> u32" where
  "entry L k pgd va =
     (if mem k (pgd + 4 * PDX va) AND PTE_P \<noteq> 0
      then mem k (P2V L (PTE_ADDR (mem k (pgd + 4 * PDX va))) + 4 * PTX va)
      else 0)"

text \<open>
  The pages of the range of \<open>mappages(pgdir, va, size, pa, perm)\<close> are
  \<open>page_at va 0\<close>, ..., \<open>page_at va (npages va size)\<close>.
\<close>

definition page_at :: "u32 \<Rightarrow> nat \<Rightarrow> u32" where
  "page_at va i = PGROUNDDOWN va + of_nat (i * PGSIZE)"

definition npages :: "u32 \<Rightarrow> u32 \<Rightarrow> nat" where
  "npages va size_n = unat (PGROUNDDOWN (va + size_n - 1) - PGROUNDDOWN va) div PGSIZE"

text \<open>
  The shape of kernel memory that \<open>mappages\<close> relies on.  \<open>aligned\<close> is page
  alignment.  \<open>flist m h xs\<close>: the free list that starts at \<open>h\<close> consists of the pages
  \<open>xs\<close>, in this order.  \<open>vm_wf L pgd k fl\<close>: the page directory and \<open>KERNBASE\<close> are
  page aligned; the free list consists of the pages \<open>fl\<close>, which are distinct, page
  aligned and not the page directory; and the page tables that the present entries
  of the page directory point to are not at address 0 and are distinct from each
  other, from the page directory and from every free page.
\<close>

definition aligned :: "u32 \<Rightarrow> bool" where
  "aligned a = (unat a mod PGSIZE = 0)"

fun flist :: "(u32 \<Rightarrow> u32) \<Rightarrow> u32 \<Rightarrow> u32 list \<Rightarrow> bool" where
  "flist m h [] = (h = 0)"
| "flist m h (x # xs) = (h = x \<and> x \<noteq> 0 \<and> flist m (m x) xs)"

definition pgtab_of :: "memlayout \<Rightarrow> kmem \<Rightarrow> u32 \<Rightarrow> u32 \<Rightarrow> u32" where
  "pgtab_of L k pgd i = P2V L (PTE_ADDR (mem k (pgd + 4 * i)))"

definition vm_wf :: "memlayout \<Rightarrow> u32 \<Rightarrow> kmem \<Rightarrow> u32 list \<Rightarrow> bool" where
  "vm_wf L pgd k fl =
     (aligned pgd \<and> aligned (KERNBASE L) \<and>
      flist (mem k) (freelist k) fl \<and> distinct fl \<and>
      (\<forall>x \<in> set fl. aligned x \<and> x \<noteq> pgd) \<and>
      (\<forall>i < 1024. mem k (pgd + 4 * i) AND PTE_P \<noteq> 0 \<longrightarrow>
         pgtab_of L k pgd i \<noteq> 0 \<and>
         pgtab_of L k pgd i \<noteq> pgd \<and> pgtab_of L k pgd i \<notin> set fl \<and>
         (\<forall>j < 1024. j \<noteq> i \<and> mem k (pgd + 4 * j) AND PTE_P \<noteq> 0 \<longrightarrow>
            pgtab_of L k pgd j \<noteq> pgtab_of L k pgd i)))"


section \<open>Example states\<close>

text \<open>
  Concrete inputs at which the theorems below are instantiated.  The memory layout
  is the one of a 32-bit kernel linked at 2 GiB with 224 MiB of physical memory.
\<close>

definition layout_ex :: memlayout where
  "layout_ex = \<lparr>kend = 0x80116000, KERNBASE = 0x80000000, PHYSTOP = 0x0E000000\<rparr>"

text \<open>An allocator whose free list holds the single page at \<open>0x80401000\<close>.\<close>

definition kmem_ex :: kmem where
  "kmem_ex = \<lparr>lock = Unlocked, use_lock = 1, freelist = 0x80401000, mem = (\<lambda>a. 0)\<rparr>"

text \<open>An allocator with an empty free list.\<close>

definition kmem_empty :: kmem where
  "kmem_empty = \<lparr>lock = Unlocked, use_lock = 1, freelist = 0, mem = (\<lambda>a. 0)\<rparr>"

text \<open>
  A process with three pages of user memory whose stack pointer is \<open>0x2FF0\<close>, and a
  user memory in which the first system call argument (the word at \<open>esp + 4\<close>) is
  \<open>0x5000\<close>, an address beyond the end of the process, and the second (the word at
  \<open>esp + 8\<close>) is \<open>0x1000\<close>.
\<close>

definition proc_ex :: proc where
  "proc_ex = \<lparr>sz = 0x3000, pgdir = 0x803FF000, kstack = 0x803FE000, state = RUNNING, pid = 2,
               parent = Some 0, tf = \<lparr>eax = 0, esp = 0x2FF0\<rparr>, chan = NoChan, killed = 0,
               ofile = [Some 0, None, Some 1, None], cwd = 0, name = ''sh''\<rparr>"

definition uspace_ex :: uspace where
  "uspace_ex = \<lparr>uword = (\<lambda>a. if a = 0x2FF4 then 0x5000 else if a = 0x2FF8 then 0x1000 else 0),
                 accessed = []\<rparr>"

text \<open>A log with three operations in progress, no commit in progress, and an empty header.\<close>

definition log_ex :: log where
  "log_ex = \<lparr>log_lock = Unlocked, start = 2, log_size = 30, outstanding = 3, committing = 0,
              dev = 1, lh_n = 0, lh_block = replicate 30 0, disk_writes = []\<rparr>"

text \<open>A log with one operation in progress that has logged blocks 33 and 45.\<close>

definition log_ex1 :: log where
  "log_ex1 = \<lparr>log_lock = Unlocked, start = 2, log_size = 30, outstanding = 1, committing = 0,
               dev = 1, lh_n = 2, lh_block = [33, 45] @ replicate 28 0, disk_writes = []\<rparr>"

text \<open>
  A pipe that holds the three bytes 104, 105, 33 at positions 510, 511 and 0 of the
  ring, and an empty pipe; the write end of \<open>pipe_ex\<close> and of \<open>pipe_empty\<close> is open,
  the one of \<open>pipe_eof\<close> is closed.
\<close>

definition pipe_ex :: pipe where
  "pipe_ex = \<lparr>plock = Unlocked,
               data = (\<lambda>i. if i = 510 then 104 else if i = 511 then 105 else if i = 0 then 33 else 0),
               nread = 510, nwrite = 513, readopen = 1, writeopen = 1\<rparr>"

text \<open>A full pipe, and user memories whose first system call argument is \<open>0x1000\<close> and 0.\<close>

definition pipe_full :: pipe where
  "pipe_full = \<lparr>plock = Unlocked, data = (\<lambda>i. 7), nread = 1, nwrite = 513, readopen = 1, writeopen = 1\<rparr>"

definition uspace_ptr :: uspace where
  "uspace_ptr = \<lparr>uword = (\<lambda>a. if a = 0x2FF4 then 0x1000 else 0), accessed = []\<rparr>"

definition uspace_zero :: uspace where
  "uspace_zero = \<lparr>uword = (\<lambda>a. 0), accessed = []\<rparr>"


definition pipe_eof :: pipe where
  "pipe_eof = \<lparr>plock = Unlocked, data = (\<lambda>i. 0), nread = 7, nwrite = 7, readopen = 1, writeopen = 0\<rparr>"

text \<open>
  A kernel with four process slots, four file-table slots and four descriptors per
  process.  Slot 0 holds \<open>init\<close>, asleep in \<open>wait\<close>; slot 1 holds the running process
  \<open>proc_ex\<close>, a child of \<open>init\<close>, with descriptor 0 open on the console file and
  descriptor 2 open on a second file; slots 2 and 3 are unused.  \<open>iput_ex\<close> stands
  for \<open>iput\<close> of the inode layer.
\<close>

definition file_unused :: file_t where
  "file_unused = \<lparr>ftype = FD_NONE, ref = 0, readable = 0, writable = 0, fpipe = 0, ip = 0, off = 0\<rparr>"

definition proc_unused :: proc where
  "proc_unused = \<lparr>sz = 0, pgdir = 0, kstack = 0, state = UNUSED, pid = 0, parent = None,
                   tf = \<lparr>eax = 0, esp = 0\<rparr>, chan = NoChan, killed = 0,
                   ofile = [None, None, None, None], cwd = 0, name = []\<rparr>"

definition proc_init :: proc where
  "proc_init = \<lparr>sz = 0x1000, pgdir = 0x803FD000, kstack = 0x803FC000, state = SLEEPING, pid = 1,
                 parent = None, tf = \<lparr>eax = 0, esp = 0xFF0\<rparr>, chan = ChanProc 0, killed = 0,
                 ofile = [Some 0, Some 0, Some 0, None], cwd = 0, name = ''init''\<rparr>"

definition pipe_junk :: pipe where
  "pipe_junk = \<lparr>plock = Locked, data = (\<lambda>i. 1), nread = 0x01010101, nwrite = 0x01010101,
                 readopen = 0x01010101, writeopen = 0x01010101\<rparr>"

definition kernel_ex :: kernel where
  "kernel_ex = \<lparr>kmem = kmem_ex, ftable_lock = Unlocked,
                 ftable = [\<lparr>ftype = FD_INODE, ref = 4, readable = 1, writable = 1, fpipe = 0, ip = 0x80110000, off = 0\<rparr>,
                           \<lparr>ftype = FD_INODE, ref = 1, readable = 1, writable = 0, fpipe = 0, ip = 0x80110100, off = 0\<rparr>,
                           file_unused, file_unused],
                 pipes = (\<lambda>pa. pipe_junk), klog = log_ex, ptable_lock = Unlocked,
                 ptable = [proc_init, proc_ex, proc_unused, proc_unused],
                 nextpid = 3, initproc = Some 0\<rparr>"

definition iput_ex :: "u32 \<Rightarrow> kernel \<Rightarrow> kernel stop + kernel" where
  "iput_ex i s = Inr s"

text \<open>
  \<open>kernel_piped\<close>: the kernel after \<open>pipealloc\<close> has built a pipe in the free page
  \<open>0x80401000\<close> and the file-table slots 2 and 3.
\<close>

definition kernel_piped :: kernel where
  "kernel_piped = kernel_ex
     \<lparr>kmem := kmem_ex\<lparr>freelist := 0\<rparr>,
      ftable := [ftable kernel_ex ! 0, ftable kernel_ex ! 1,
                 \<lparr>ftype = FD_PIPE, ref = 1, readable = 1, writable = 0, fpipe = 0x80401000, ip = 0, off = 0\<rparr>,
                 \<lparr>ftype = FD_PIPE, ref = 1, readable = 0, writable = 1, fpipe = 0x80401000, ip = 0, off = 0\<rparr>],
      pipes := (pipes kernel_ex)(0x80401000 :=
                 \<lparr>plock = Unlocked, data = (\<lambda>i. 1), nread = 0, nwrite = 0, readopen = 1, writeopen = 1\<rparr>)\<rparr>"

text \<open>
  \<open>kernel_zombie\<close>: the kernel in which slot 2 holds a zombie child of the process
  in slot 1, with pid 3, kernel stack \<open>0x80402000\<close> and page directory \<open>0x80500000\<close>.
\<close>

definition proc_zombie :: proc where
  "proc_zombie = \<lparr>sz = 0x3000, pgdir = 0x80500000, kstack = 0x80402000, state = ZOMBIE, pid = 3,
                   parent = Some 1, tf = \<lparr>eax = 0, esp = 0x2FF0\<rparr>, chan = NoChan, killed = 0,
                   ofile = [None, None, None, None], cwd = 0, name = ''sh''\<rparr>"

definition kernel_zombie :: kernel where
  "kernel_zombie = kernel_ex\<lparr>ptable := [proc_init, proc_ex, proc_zombie, proc_unused]\<rparr>"

text \<open>
  \<open>kernel_with p\<close>: the kernel in which the pipe at \<open>0x80400000\<close> is \<open>p\<close> and slot 2
  holds a child of the process in slot 1 that sleeps in \<open>pipewrite\<close> on this pipe.
\<close>

definition proc_writer :: proc where
  "proc_writer = \<lparr>sz = 0x3000, pgdir = 0x80500000, kstack = 0x80402000, state = SLEEPING, pid = 3,
                   parent = Some 1, tf = \<lparr>eax = 0, esp = 0x2FF0\<rparr>, chan = ChanNwrite 0x80400000,
                   killed = 0, ofile = [None, None, None, None], cwd = 0, name = ''sh''\<rparr>"

definition kernel_with :: "pipe \<Rightarrow> kernel" where
  "kernel_with p = kernel_ex\<lparr>pipes := (pipes kernel_ex)(0x80400000 := p),
                             ptable := [proc_init, proc_ex, proc_writer, proc_unused]\<rparr>"



section \<open>Word arithmetic used below\<close>

lemma unat_diff_step:
  fixes a b :: u32
  assumes "a \<noteq> b" and "unat (b - a) = Suc k"
  shows "unat (b - (a + 1)) = k"
proof -
  have e: "b - (a + 1) = (b - a) - 1" by simp
  have nz: "b - a \<noteq> 0" using assms(1) by simp
  have "unat (b - (a + 1)) = unat (b - a) - 1"
    unfolding e by (rule unat_minus_one [OF nz])
  with assms(2) show ?thesis by simp
qed

lemma unat_diff_read:
  fixes a b :: u32
  assumes "a \<noteq> b" and "unat (b - a) \<le> N"
  shows "unat (b - (a + 1)) \<le> N"
proof -
  have "b - a \<noteq> 0" using assms(1) by simp
  then have "unat (b - a) \<noteq> 0" by (simp add: unat_eq_0)
  then obtain k where k: "unat (b - a) = Suc k" by (cases "unat (b - a)") auto
  from unat_diff_step[OF assms(1) k] k assms(2) show ?thesis by simp
qed

lemma unat_diff_write:
  fixes a b :: u32
  assumes "b \<noteq> a + of_nat PIPESIZE" and "unat (b - a) \<le> PIPESIZE"
  shows "unat (b + 1 - a) \<le> PIPESIZE"
proof -
  have "b - a \<noteq> of_nat PIPESIZE" using assms(1) by (auto simp: algebra_simps)
  then have "unat (b - a) \<noteq> PIPESIZE"
    by (metis of_nat_unat ucast_id)
  with assms(2) have lt: "unat (b - a) < PIPESIZE" by simp
  have e: "b + 1 - a = (b - a) + 1" by simp
  have "unat ((b - a) + 1) = unat (b - a) + 1"
    using lt by (simp add: unat_word_ariths PIPESIZE_def)
  then have "unat (b + 1 - a) = unat (b - a) + 1" unfolding e .
  with lt show ?thesis by simp
qed

lemma sint_nonneg_unat:
  assumes "\<not> (w :: u32) <s 0" shows "unat w < 2 ^ 31"
proof -
  have a: "0 \<le> sint w" using assms by (simp add: word_sless_alt)
  have b: "sint w < 2 ^ 31" using sint_less[of w] by simp
  have "uint w = take_bit 32 (sint w)" using uint_sint[of w] by simp
  also have "\<dots> = sint w" using a b by (simp add: take_bit_eq_mod)
  finally have "uint w < 2 ^ 31" using b by simp
  then show ?thesis by (simp add: unat_eq_nat_uint nat_less_iff del: nat_uint_eq)
qed

lemma no_wrap_add:
  "unat (a :: u32) < 2 ^ 31 \<Longrightarrow> unat b < 2 ^ 31 \<Longrightarrow> unat (a + b) = unat a + unat b"
  by (subst unat_add_lem[symmetric]) simp

section \<open>The page allocator is LIFO\<close>

lemma kfree_ex:
  "kfree layout_ex 0x80400000 kmem_ex =
     Inr (kmem_ex\<lparr>mem := (memset_words (mem kmem_ex) 0x80400000 1 PGSIZE)(0x80400000 := 0x80401000),
                 freelist := 0x80400000\<rparr>)"
  by (simp add: kfree_def layout_ex_def kmem_ex_def PGSIZE_def V2P_def kmem_acquire_def
        kmem_release_def thenR_def acquire_def release_def holding_def)

text \<open>
  Claim C8.  Let \<open>end\<close>, the first address after the kernel image, be positive.  If
  \<open>kfree(v)\<close> accepts the page \<open>v\<close> (it returns instead of panicking), then \<open>v\<close> is
  the head of the free list, its \<open>next\<close> link is the old head, and the next \<open>kalloc\<close>
  returns exactly \<open>v\<close> and restores the old head.  On an empty free list \<open>kalloc\<close>
  returns 0 and leaves the allocator as it is, provided the caller does not already
  hold \<open>kmem.lock\<close>.
\<close>

theorem kalloc_lifo:
  assumes "0 < kend L"
  shows "(kfree L v s = Inr s' \<longrightarrow>
            freelist s' = v \<and> mem s' v = freelist s \<and>
            kalloc s' = Inr (v, s'\<lparr>freelist := freelist s\<rparr>)) \<and>
         (freelist s = 0 \<and> (use_lock s = 0 \<or> lock s = Unlocked) \<longrightarrow> kalloc s = Inr (0, s))"
proof (intro conjI impI)
  assume run: "kfree L v s = Inr s'"
  with assms have nz: "v \<noteq> 0"
    by (auto simp: kfree_def split: if_splits)
  from run nz show "freelist s' = v" "mem s' v = freelist s"
      "kalloc s' = Inr (v, s'\<lparr>freelist := freelist s\<rparr>)"
    by (auto simp: kfree_def kalloc_def kmem_acquire_def kmem_release_def thenR_def
          acquire_def release_def holding_def Let_def split: if_splits sum.splits)
next
  assume "freelist s = 0 \<and> (use_lock s = 0 \<or> lock s = Unlocked)"
  then show "kalloc s = Inr (0, s)"
    by (auto simp: kalloc_def kmem_acquire_def kmem_release_def thenR_def
          acquire_def release_def holding_def Let_def)
qed

theorem kalloc_lifo_witness:
  "kfree layout_ex 0x80400000 kmem_ex =
     (Inr (kmem_ex\<lparr>mem := (memset_words (mem kmem_ex) 0x80400000 1 PGSIZE)(0x80400000 := 0x80401000),
                 freelist := 0x80400000\<rparr>) :: unit stop + kmem) \<and>
   kalloc (kmem_ex\<lparr>mem := (memset_words (mem kmem_ex) 0x80400000 1 PGSIZE)(0x80400000 := 0x80401000),
                 freelist := 0x80400000\<rparr>) =
     (Inr (0x80400000, kmem_ex\<lparr>mem := (memset_words (mem kmem_ex) 0x80400000 1 PGSIZE)(0x80400000 := 0x80401000)\<rparr>)
        :: unit stop + u32 \<times> kmem) \<and>
   kalloc kmem_empty = (Inr (0, kmem_empty) :: unit stop + u32 \<times> kmem)"
proof -
  have h: "0 < kend layout_ex" by (simp add: layout_ex_def)
  have e: "freelist kmem_empty = 0 \<and> (use_lock kmem_empty = 0 \<or> lock kmem_empty = Unlocked)"
    by (simp add: kmem_empty_def)
  from kalloc_lifo [OF h, where v = "0x80400000" and s = kmem_ex,
      THEN conjunct1, rule_format, OF kfree_ex]
  have a: "kalloc (kmem_ex\<lparr>mem := (memset_words (mem kmem_ex) 0x80400000 1 PGSIZE)(0x80400000 := 0x80401000),
                 freelist := 0x80400000\<rparr>) =
     (Inr (0x80400000, kmem_ex\<lparr>mem := (memset_words (mem kmem_ex) 0x80400000 1 PGSIZE)(0x80400000 := 0x80401000)\<rparr>)
        :: unit stop + u32 \<times> kmem)"
    by (simp add: kmem_ex_def)
  from kalloc_lifo [OF h, where s = kmem_empty, THEN conjunct2, rule_format, OF e]
  have b: "kalloc kmem_empty = (Inr (0, kmem_empty) :: unit stop + u32 \<times> kmem)" .
  from kfree_ex a b show ?thesis by simp
qed

section \<open>The log\<close>

text \<open>
  Claim C1.  The claim admits a caller only when \<open>committing\<close> is false and
  \<open>(outstanding + 1) * MAXOPBLOCKS \<le> LOGSIZE\<close>.  The \<open>begin_op\<close> of the source tests
  \<open>committing\<close> only: whenever no commit is in progress (and the caller does not
  already hold the log lock) it increments \<open>outstanding\<close> and returns, also when one
  more operation overflows the log, whatever the values of \<open>MAXOPBLOCKS\<close> and
  \<open>LOGSIZE\<close> are.
\<close>

theorem begin_op_admits_without_space:
  assumes "log_lock lg = Unlocked" and "committing lg = 0"
      and "(outstanding lg + 1) * MAXOPBLOCKS > LOGSIZE"
  shows "begin_op lg = Inr (lg\<lparr>outstanding := outstanding lg + 1\<rparr>)"
  using assms(1,2)
  by (simp add: begin_op_def thenR_def acquire_def release_def holding_def Let_def)

theorem begin_op_admits_without_space_witness:
  "(outstanding log_ex + 1) * 10 > (30 :: int) \<and>
   begin_op log_ex = Inr (log_ex\<lparr>outstanding := 4\<rparr>)"
proof -
  have a: "log_lock log_ex = Unlocked" "committing log_ex = 0"
    and b: "(outstanding log_ex + 1) * 10 > (30 :: int)"
    by (simp_all add: log_ex_def)
  from begin_op_admits_without_space [OF a b] b show ?thesis
    by (simp add: log_ex_def)
qed


text \<open>
  Claim C2.  The claim has \<open>end_op\<close> decrement \<open>outstanding\<close> and commit when the
  count reaches zero.  The \<open>end_op\<close> of the source panics right after taking the log
  lock: called for the last outstanding operation of a transaction with two logged
  blocks, it does not return, \<open>outstanding\<close> is not decremented and nothing is
  written to the disk.
\<close>

theorem end_op_panics:
  "end_op log_ex1 = Inl (Panic ''log.committing'')"
  by (simp add: end_op_def log_ex1_def thenR_def acquire_def holding_def)

section \<open>File descriptors\<close>







section \<open>Argument pointers\<close>

text \<open>
  Claim C6, as stated, fails: when the pointer word is fetched and then found out of
  range, \<open>argptr\<close> returns -1 after it has read user memory (the argument word on
  the user stack).  Here the first argument of the example process is \<open>0x5000\<close>,
  beyond its size \<open>0x3000\<close>: the result is -1 and the word at \<open>esp + 4\<close> has been read.
\<close>

theorem argptr_reads_argument_word:
  "argptr proc_ex 0 0 4 uspace_ex = (-1, 0, uspace_ex\<lparr>accessed := [0x2FF4]\<rparr>)"
  by (simp add: argptr_def argint_def fetchint_def proc_ex_def uspace_ex_def)

text \<open>
  Claim C6, amended.  For a process whose size is at most 2 GiB (user memory ends
  below \<open>KERNBASE\<close>), \<open>argptr(n, &pp, size)\<close> returns 0 or -1.  It returns 0, with
  \<open>pp\<close> set to the fetched argument word, only when \<open>size \<ge> 0\<close> and the whole range
  \<open>[pp, pp + size)\<close> lies within \<open>[0, sz)\<close>; when it returns -1, \<open>pp\<close> is unchanged.
  In every case the only user memory it accesses is the argument word itself, read
  only when that word lies within \<open>[0, sz)\<close>: nothing is read when the fetch of the
  pointer word fails, nothing is ever accessed through the pointer, and user memory
  is never written.
\<close>

theorem argptr_checked:
  assumes szb: "unat (sz p) \<le> 2 ^ 31"
      and run: "argptr p n pp size_n u = (r, pp', u')"
  shows "(r = 0 \<or> r = -1) \<and>
         (r = 0 \<longrightarrow> 0 \<le> sint size_n \<and> unat pp' + unat size_n \<le> unat (sz p)
                   \<and> pp' = uword u (esp (tf p) + 4 + 4 * n)) \<and>
         (r = -1 \<longrightarrow> pp' = pp) \<and>
         (accessed u' = accessed u \<or>
            accessed u' = accessed u @ [esp (tf p) + 4 + 4 * n] \<and>
            unat (esp (tf p) + 4 + 4 * n) + 4 \<le> unat (sz p)) \<and>
         (fetchint p (esp (tf p) + 4 + 4 * n) 0 u = (-1, 0, u) \<longrightarrow> r = -1 \<and> accessed u' = accessed u) \<and>
         uword u' = uword u"
proof -
  define addr where "addr = esp (tf p) + 4 + 4 * n"
  show ?thesis
  proof (cases "addr \<ge> sz p \<or> addr + 4 > sz p")
    case True
    with run show ?thesis
      by (auto simp: argptr_def argint_def fetchint_def addr_def)
  next
    case False
    then have lt: "unat addr < unat (sz p)" and le4: "unat (addr + 4) \<le> unat (sz p)"
      by (auto simp: word_less_nat_alt word_le_nat_alt)
    have "unat (addr + 4) = unat addr + unat (4 :: u32)"
      using lt szb by (intro no_wrap_add) auto
    with le4 have in_range: "unat addr + 4 \<le> unat (sz p)" by simp
    define i where "i = uword u addr"
    show ?thesis
    proof (cases "size_n <s 0 \<or> i \<ge> sz p \<or> i + size_n > sz p")
      case True
      with run False in_range show ?thesis
        by (auto simp: argptr_def argint_def fetchint_def addr_def i_def)
    next
      case ok: False
      then have s1: "unat size_n < 2 ^ 31" by (intro sint_nonneg_unat) simp
      from ok have s2: "unat i < unat (sz p)" and s3: "unat (i + size_n) \<le> unat (sz p)"
        by (auto simp: word_less_nat_alt word_le_nat_alt)
      have "unat (i + size_n) = unat i + unat size_n"
        using s1 s2 szb by (intro no_wrap_add) auto
      with s3 have "unat i + unat size_n \<le> unat (sz p)" by simp
      moreover from ok have "0 \<le> sint size_n" by (simp add: word_sless_alt)
      ultimately show ?thesis
        using run False ok in_range
        by (auto simp: argptr_def argint_def fetchint_def addr_def i_def)
    qed
  qed
qed

theorem argptr_checked_witness:
  "argptr proc_ex 1 0 8 uspace_ex = (0, 0x1000, uspace_ex\<lparr>accessed := [0x2FF8]\<rparr>) \<and>
   (0 :: int) \<le> sint (8 :: u32) \<and> unat (0x1000 :: u32) + unat (8 :: u32) \<le> unat (sz proc_ex)"
proof -
  have a: "unat (sz proc_ex) \<le> 2 ^ 31" by (simp add: proc_ex_def)
  have b: "argptr proc_ex 1 0 8 uspace_ex = (0, 0x1000, uspace_ex\<lparr>accessed := [0x2FF8]\<rparr>)"
    by (simp add: argptr_def argint_def fetchint_def proc_ex_def uspace_ex_def word_sless_alt)
  from argptr_checked [OF a b] b show ?thesis by simp
qed


section \<open>Pipes\<close>

lemma piperead_copy_stop:
  "\<not> i < n \<or> nread p = nwrite p \<Longrightarrow> piperead_copy i n buf p = (i, buf, p)"
  by (subst piperead_copy.simps) auto

lemma piperead_copy_step:
  "i < n \<Longrightarrow> nread p \<noteq> nwrite p \<Longrightarrow>
   piperead_copy i n buf p =
     piperead_copy (i + 1) n (buf @ [data p (unat (nread p) mod PIPESIZE)]) (p\<lparr>nread := nread p + 1\<rparr>)"
  by (subst piperead_copy.simps) simp

lemma wakeup_unlocked:
  "ptable_lock s = Unlocked \<Longrightarrow> wakeup c s = Inr (s\<lparr>ptable := wakeup1 c (ptable s)\<rparr>)"
  by (cases s) (simp add: wakeup_def thenR_def acquire_def release_def holding_def)

lemma wakeup_locked:
  "ptable_lock s = Locked \<Longrightarrow> wakeup c s = Inl (Panic ''acquire'')"
  by (simp add: wakeup_def thenR_def acquire_def holding_def)

lemma wakeup_result:
  assumes "wakeup c s = (Inr s' :: 'x stop + kernel)"
  shows "ptable_lock s = Unlocked \<and> s' = s\<lparr>ptable := wakeup1 c (ptable s)\<rparr>"
proof (cases "ptable_lock s")
  case Unlocked
  have "wakeup c s = (Inr (s\<lparr>ptable := wakeup1 c (ptable s)\<rparr>) :: 'x stop + kernel)"
    by (rule wakeup_unlocked [OF Unlocked])
  with assms Unlocked show ?thesis by simp
next
  case Locked
  have "wakeup c s = (Inl (Panic ''acquire'') :: 'x stop + kernel)"
    by (rule wakeup_locked [OF Locked])
  with assms show ?thesis by simp
qed

lemma plock_same: "plock p = l \<Longrightarrow> p\<lparr>plock := l\<rparr> = p"
  by (cases p) simp

lemma length_wakeup1: "length (wakeup1 c ps) = length ps"
  by (simp add: wakeup1_def)

lemma sleep_pipe:
  assumes "ptable_lock s = Unlocked" and "plock (pipes s pa) = Locked" and "cp < length (ptable s)"
  shows "sleep cp c (PipeLock pa) s =
           Inl (Sleep c (s\<lparr>ptable_lock := Locked,
                            pipes := (pipes s)(pa := (pipes s pa)\<lparr>plock := Unlocked\<rparr>),
                            ptable := (ptable s)[cp := (ptable s ! cp)\<lparr>chan := c, state := SLEEPING\<rparr>]\<rparr>))"
  using assms
  by (simp add: sleep_def thenR_def acquire_def release_def holding_def lock_of_def lock_upd_def
        sched_def Let_def)

lemma sleep_pipe_locked:
  "ptable_lock s = Locked \<Longrightarrow> sleep cp c (PipeLock pa) s = Inl (Panic ''acquire'')"
  by (simp add: sleep_def thenR_def acquire_def holding_def)

lemma pipe_unlock_upd:
  "plock p = Unlocked \<Longrightarrow> p\<lparr>plock := Locked, nread := x\<rparr>\<lparr>plock := Unlocked\<rparr> = p\<lparr>nread := x\<rparr>"
  by (cases p) simp


lemma piperead_run:
  assumes "plock (pipes s pa) = Unlocked" and "ptable_lock s = Unlocked"
      and "\<not> (nread (pipes s pa) = nwrite (pipes s pa) \<and> writeopen (pipes s pa) \<noteq> 0)"
      and "piperead_copy 0 n [] ((pipes s pa)\<lparr>plock := Locked\<rparr>) = (i, buf, p2)"
      and "plock p2 = Locked"
  shows "piperead cp pa n s =
           Inr (i, buf, s\<lparr>pipes := (pipes s)(pa := p2\<lparr>plock := Unlocked\<rparr>),
                          ptable := wakeup1 (ChanNwrite pa) (ptable s)\<rparr>)"
  using assms
  by (auto simp: piperead_def thenR_def acquire_def release_def holding_def lock_upd_def Let_def
        wakeup_unlocked)



lemma kernel_with_simps:
  "ptable (kernel_with p) = [proc_init, proc_ex, proc_writer, proc_unused]"
  "pipes (kernel_with p) 0x80400000 = p"
  "ptable_lock (kernel_with p) = Unlocked"
  by (simp_all add: kernel_with_def kernel_ex_def)

lemma wakeup1_writer:
  "wakeup1 (ChanNwrite 0x80400000) [proc_init, proc_ex, proc_writer, proc_unused] =
     [proc_init, proc_ex, proc_writer\<lparr>state := RUNNABLE\<rparr>, proc_unused]"
  by (simp add: wakeup1_def proc_init_def proc_ex_def proc_writer_def proc_unused_def)

lemma wakeup1_reader:
  "wakeup1 (ChanNread 0x80400000) [proc_init, proc_ex, proc_writer, proc_unused] =
     [proc_init, proc_ex, proc_writer, proc_unused]"
  by (simp add: wakeup1_def proc_init_def proc_ex_def proc_writer_def proc_unused_def)


lemma piperead_copy_all:
  "unat (nwrite p - nread p) = k \<Longrightarrow> int k \<le> n - i \<Longrightarrow>
   piperead_copy i n buf p =
     (i + int k, buf @ map (\<lambda>j. data p (unat (nread p + of_nat j) mod PIPESIZE)) [0 ..< k],
      p\<lparr>nread := nwrite p\<rparr>)"
proof (induction k arbitrary: i buf p)
  case 0
  then have "nread p = nwrite p" by (simp add: unat_eq_0)
  then show ?case by (simp add: piperead_copy_stop)
next
  case (Suc k)
  from Suc.prems have ne: "nread p \<noteq> nwrite p" by auto
  from Suc.prems have lt: "i < n" by simp
  let ?p' = "p\<lparr>nread := nread p + 1\<rparr>"
  have d: "unat (nwrite ?p' - nread ?p') = k"
    using unat_diff_step[OF ne] Suc.prems(1) by simp
  have r: "int k \<le> n - (i + 1)" using Suc.prems(2) by simp
  have m: "map (\<lambda>j. data p (unat (nread p + of_nat j) mod PIPESIZE)) [0 ..< Suc k] =
           data p (unat (nread p) mod PIPESIZE) #
           map (\<lambda>j. data p (unat (nread p + 1 + of_nat j) mod PIPESIZE)) [0 ..< k]"
    by (simp add: upt_conv_Cons map_Suc_upt[symmetric] ac_simps del: upt_Suc)
  show ?case
    using Suc.IH[OF d r] m
    by (simp add: piperead_copy_step[OF lt ne] del: upt_Suc)
qed

text \<open>
  Claim C9.  Let the caller hold neither the lock of the pipe nor \<open>ptable.lock\<close>.  If
  the pipe holds \<open>k\<close> bytes (\<open>nwrite - nread = k\<close> in the arithmetic of the counters)
  with \<open>1 \<le> k < n\<close>, then \<open>piperead\<close>, whatever \<open>writeopen\<close> is, returns \<open>k\<close> without
  sleeping; the bytes it copies are exactly the \<open>k\<close> bytes at the ring positions
  \<open>nread, nread + 1, ...\<close> (modulo \<open>PIPESIZE\<close>), oldest first; the pipe is left
  empty, and the processes that sleep on \<open>&p->nwrite\<close> have been woken.
\<close>

theorem piperead_partial:
  assumes "plock (pipes s pa) = Unlocked" and "ptable_lock s = Unlocked"
      and "unat (nwrite (pipes s pa) - nread (pipes s pa)) = k" and "1 \<le> k" and "int k < n"
  shows "piperead cp pa n s =
           Inr (int k,
                map (\<lambda>j. data (pipes s pa) (unat (nread (pipes s pa) + of_nat j) mod PIPESIZE)) [0 ..< k],
                s\<lparr>pipes := (pipes s)(pa := (pipes s pa)\<lparr>nread := nwrite (pipes s pa)\<rparr>),
                   ptable := wakeup1 (ChanNwrite pa) (ptable s)\<rparr>)"
proof -
  let ?p = "pipes s pa"
  from assms have ne: "nread ?p \<noteq> nwrite ?p" by auto
  have c: "piperead_copy 0 n [] (?p\<lparr>plock := Locked\<rparr>) =
           (int k, map (\<lambda>j. data ?p (unat (nread ?p + of_nat j) mod PIPESIZE)) [0 ..< k],
            ?p\<lparr>plock := Locked, nread := nwrite ?p\<rparr>)"
    using piperead_copy_all[of "?p\<lparr>plock := Locked\<rparr>" k n 0 "[]"] assms by simp
  have "piperead cp pa n s =
          Inr (int k, map (\<lambda>j. data ?p (unat (nread ?p + of_nat j) mod PIPESIZE)) [0 ..< k],
               s\<lparr>pipes := (pipes s)(pa := ?p\<lparr>plock := Locked, nread := nwrite ?p\<rparr>\<lparr>plock := Unlocked\<rparr>),
                  ptable := wakeup1 (ChanNwrite pa) (ptable s)\<rparr>)"
    by (rule piperead_run [OF assms(1,2) _ c]) (simp_all add: ne)
  then show ?thesis by (simp only: pipe_unlock_upd [OF assms(1)])
qed

theorem piperead_partial_witness:
  "piperead 1 0x80400000 10 (kernel_with pipe_ex) =
     Inr (3, [104, 105, 33],
          (kernel_with pipe_ex)
            \<lparr>pipes := (pipes (kernel_with pipe_ex))(0x80400000 := pipe_ex\<lparr>nread := 513\<rparr>),
             ptable := [proc_init, proc_ex, proc_writer\<lparr>state := RUNNABLE\<rparr>, proc_unused]\<rparr>)"
proof -
  have a: "plock (pipes (kernel_with pipe_ex) 0x80400000) = Unlocked"
    "ptable_lock (kernel_with pipe_ex) = Unlocked"
    "unat (nwrite (pipes (kernel_with pipe_ex) 0x80400000) - nread (pipes (kernel_with pipe_ex) 0x80400000)) = 3"
    by (simp_all add: kernel_with_simps pipe_ex_def)
  have b: "1 \<le> (3 :: nat)" "int 3 < 10" by simp_all
  have "[0 ..< 3] = [0, 1, 2]" by (simp add: upt_rec)
  with piperead_partial [OF a b, of 1] show ?thesis
    by (simp add: kernel_with_simps wakeup1_writer pipe_ex_def PIPESIZE_def)
qed


section \<open>The pipe invariant\<close>

lemma filealloc_loop_bound:
  "filealloc_loop f ft = (Some r, ft') \<Longrightarrow> r < length ft \<and> length ft' = length ft"
proof (induction f ft rule: filealloc_loop.induct)
  case (1 f ft)
  then show ?case
    by (subst (asm) (2) filealloc_loop.simps) (auto split: if_splits)
qed

lemma filealloc_loop_len:
  "filealloc_loop f ft = (r, ft') \<Longrightarrow> length ft' = length ft"
proof (induction f ft rule: filealloc_loop.induct)
  case (1 f ft)
  then show ?case
    by (subst (asm) (2) filealloc_loop.simps) (auto split: if_splits)
qed

lemma filealloc_result:
  assumes "filealloc s = Inr (f, s')"
  shows "ptable s' = ptable s \<and> kmem s' = kmem s \<and> pipes s' = pipes s
         \<and> length (ftable s') = length (ftable s) \<and> (\<forall>r. f = Some r \<longrightarrow> r < length (ftable s))"
proof -
  obtain r ft where l: "filealloc_loop 0 (ftable s) = (r, ft)"
    by (cases "filealloc_loop 0 (ftable s)") auto
  from assms l have "f = r" "s' = s\<lparr>ftable := ft, ftable_lock := Unlocked\<rparr>"
    by (auto simp: filealloc_def thenR_def acquire_def release_def holding_def split: if_splits)
  with l filealloc_loop_bound[of 0 "ftable s"] filealloc_loop_len[OF l] show ?thesis
    by auto
qed

lemma pipealloc_bad_ret:
  "pipealloc_bad L iput p f0 f1 s = Inr (r, g0, g1, s') \<Longrightarrow> r = -1"
  by (auto simp: pipealloc_bad_def thenR_def split: sum.splits if_splits option.splits)

lemma pipealloc_ok:
  assumes "pipealloc L iput s = Inr (r, f0, f1, s')"
  shows "(r = 0 \<or> r = -1) \<and>
         (r = 0 \<longrightarrow> ptable s' = ptable s \<and>
            (\<exists>r0 r1. f0 = Some r0 \<and> f1 = Some r1 \<and> r1 < length (ftable s') \<and>
               ftype (ftable s' ! r1) = FD_PIPE \<and>
               nread (pipes s' (fpipe (ftable s' ! r1))) = 0 \<and>
               nwrite (pipes s' (fpipe (ftable s' ! r1))) = 0 \<and>
               readopen (pipes s' (fpipe (ftable s' ! r1))) = 1 \<and>
               writeopen (pipes s' (fpipe (ftable s' ! r1))) = 1))"
proof (cases "filealloc s :: kernel stop + (nat option \<times> kernel)")
  case (Inl e)
  with assms show ?thesis by (simp add: pipealloc_def thenR_def)
next
  case (Inr x)
  obtain f0' s1 where x: "x = (f0', s1)" by (cases x)
  note fa1 = filealloc_result[OF Inr[unfolded x]]
  show ?thesis
  proof (cases f0')
    case None
    with assms Inr x show ?thesis
      by (auto simp: pipealloc_def thenR_def dest: pipealloc_bad_ret)
  next
    case (Some r0)
    show ?thesis
    proof (cases "filealloc s1 :: kernel stop + (nat option \<times> kernel)")
      case (Inl e)
      with assms Inr x Some show ?thesis by (simp add: pipealloc_def thenR_def)
    next
      case Inr2: (Inr y)
      obtain f1' s2 where y: "y = (f1', s2)" by (cases y)
      note fa2 = filealloc_result[OF Inr2[unfolded y]]
      show ?thesis
      proof (cases f1')
        case None
        with assms Inr x Some Inr2 y show ?thesis
          by (auto simp: pipealloc_def thenR_def dest: pipealloc_bad_ret)
      next
        case S1: (Some r1)
        with fa2 have r1: "r1 < length (ftable s2)" by simp
        show ?thesis
        proof (cases "kalloc (kmem s2) :: kernel stop + (u32 \<times> kmem)")
          case (Inl e)
          with assms Inr x Some Inr2 y S1 show ?thesis by (simp add: pipealloc_def thenR_def)
        next
          case Inr3: (Inr z)
          obtain p k where z: "z = (p, k)" by (cases z)
          show ?thesis
          proof (cases "p = 0")
            case True
            with assms Inr x Some Inr2 y S1 Inr3 z show ?thesis
              by (auto simp: pipealloc_def thenR_def Let_def dest: pipealloc_bad_ret)
          next
            case False
            with assms Inr x Some Inr2 y S1 Inr3 z r1 fa1 fa2 show ?thesis
              by (auto simp: pipealloc_def thenR_def Let_def)
          qed
        qed
      qed
    qed
  qed
qed

lemma piperead_copy_inv:
  "piperead_copy i n buf p = (i', buf', p') \<Longrightarrow> unat (nwrite p - nread p) \<le> N \<Longrightarrow>
   unat (nwrite p' - nread p') \<le> N \<and> nwrite p' = nwrite p \<and> readopen p' = readopen p
     \<and> writeopen p' = writeopen p \<and> plock p' = plock p"
proof (induction i n buf p rule: piperead_copy.induct)
  case (1 i n buf p)
  show ?case
  proof (cases "i < n \<and> nread p \<noteq> nwrite p")
    case True
    then have run: "piperead_copy (i + 1) n (buf @ [data p (unat (nread p) mod PIPESIZE)])
                 (p\<lparr>nread := nread p + 1\<rparr>) = (i', buf', p')"
      using "1.prems"(1) by (simp add: piperead_copy_step)
    have inv: "unat (nwrite (p\<lparr>nread := nread p + 1\<rparr>) - nread (p\<lparr>nread := nread p + 1\<rparr>)) \<le> N"
      using unat_diff_read[of "nread p" "nwrite p" N] True "1.prems"(2) by simp
    from "1.IH"[OF _ _ run inv] True show ?thesis by auto
  next
    case False
    then have "piperead_copy i n buf p = (i, buf, p)"
      by (intro piperead_copy_stop) auto
    with "1.prems"(1) have "p' = p" by simp
    with "1.prems"(2) show ?thesis by simp
  qed
qed

text \<open>What \<open>sleep\<close> on the lock of a pipe leaves of the pipes.\<close>

lemma sleep_pipes:
  assumes "sleep cp c (PipeLock pa) s = (Inl (Sleep c' s') :: kernel stop + 'x)"
  shows "\<exists>l. pipes s' = (pipes s)(pa := (pipes s pa)\<lparr>plock := l\<rparr>)"
  using assms
  by (auto simp: sleep_def thenR_def acquire_def release_def holding_def lock_of_def lock_upd_def
        sched_def Let_def split: if_splits)

lemma wakeup_stop: "wakeup c s = Inl e \<Longrightarrow> e = Panic ''acquire''"
  by (auto simp: wakeup_def thenR_def acquire_def release_def holding_def Let_def split: if_splits)

lemma sleep_no_return: "sleep cp c lk s = Inr x \<Longrightarrow> False"
  by (auto simp: sleep_def thenR_def acquire_def release_def holding_def sched_def Let_def
        split: if_splits sum.splits)

lemma piperead_inv:
  assumes "unat (nwrite (pipes s pa) - nread (pipes s pa)) \<le> PIPESIZE"
  shows "(piperead cp pa n s = Inr (r, buf, s') \<longrightarrow>
            unat (nwrite (pipes s' pa) - nread (pipes s' pa)) \<le> PIPESIZE \<and>
            readopen (pipes s' pa) = readopen (pipes s pa) \<and> writeopen (pipes s' pa) = writeopen (pipes s pa)) \<and>
         (piperead cp pa n s = Inl (Sleep c s') \<longrightarrow>
            unat (nwrite (pipes s' pa) - nread (pipes s' pa)) \<le> PIPESIZE \<and>
            readopen (pipes s' pa) = readopen (pipes s pa) \<and> writeopen (pipes s' pa) = writeopen (pipes s pa))"
proof -
  let ?p1 = "(pipes s pa)\<lparr>plock := Locked\<rparr>"
  obtain i' buf' p2 where c: "piperead_copy 0 n [] ?p1 = (i', buf', p2)"
    by (cases "piperead_copy 0 n [] ?p1") auto
  from piperead_copy_inv[OF c, of PIPESIZE] assms
  have p2: "unat (nwrite p2 - nread p2) \<le> PIPESIZE \<and> readopen p2 = readopen (pipes s pa) \<and>
            writeopen p2 = writeopen (pipes s pa)"
    by auto
  with assms c show ?thesis
    by (auto simp: piperead_def thenR_def acquire_def release_def holding_def lock_upd_def Let_def
          split: if_splits sum.splits dest!: wakeup_result wakeup_stop sleep_pipes sleep_no_return)
qed

lemma inS_sleep:
  assumes "inS put m = Inl (Sleep c x)"
  shows "\<exists>y. m = Inl (Sleep c y) \<and> x = put y"
proof (cases m)
  case (Inl e)
  with assms show ?thesis by (cases e) (simp_all add: inS_def)
next
  case (Inr v)
  with assms show ?thesis by (simp add: inS_def)
qed

lemma inS_return: "inS put m = Inr x \<Longrightarrow> m = Inr x"
  by (cases m) (simp_all add: inS_def)

lemma pipewrite_loop_inv:
  "unat (nwrite (pipes s pa) - nread (pipes s pa)) \<le> PIPESIZE \<Longrightarrow>
   (pipewrite_loop cp pa addr n i s = Inr (r, s') \<longrightarrow>
      unat (nwrite (pipes s' pa) - nread (pipes s' pa)) \<le> PIPESIZE \<and>
      readopen (pipes s' pa) = readopen (pipes s pa) \<and> writeopen (pipes s' pa) = writeopen (pipes s pa)) \<and>
   (pipewrite_loop cp pa addr n i s = Inl (Sleep c (i', s')) \<longrightarrow>
      unat (nwrite (pipes s' pa) - nread (pipes s' pa)) \<le> PIPESIZE \<and>
      readopen (pipes s' pa) = readopen (pipes s pa) \<and> writeopen (pipes s' pa) = writeopen (pipes s pa))"
proof (induction cp pa addr n i s rule: pipewrite_loop.induct)
  case (1 cp pa addr n i s)
  let ?p = "pipes s pa"
  show ?case
  proof (cases "i < n \<and> nwrite ?p \<noteq> nread ?p + of_nat PIPESIZE")
    case True
    let ?s = "s\<lparr>pipes := (pipes s)(pa := ?p
                 \<lparr>data := (data ?p)(unat (nwrite ?p) mod PIPESIZE := addr ! nat i),
                  nwrite := nwrite ?p + 1\<rparr>)\<rparr>"
    have inv: "unat (nwrite (pipes ?s pa) - nread (pipes ?s pa)) \<le> PIPESIZE"
      using unat_diff_write[of "nwrite ?p" "nread ?p"] True "1.prems" by simp
    have e: "pipewrite_loop cp pa addr n i s = pipewrite_loop cp pa addr n (i + 1) ?s"
      using True by (subst pipewrite_loop.simps) simp
    from "1.IH"[OF _ _ inv] True show ?thesis unfolding e by simp
  next
    case False
    have e: "pipewrite_loop cp pa addr n i s =
         (if i < n
          then (if readopen ?p = 0 \<or> killed (ptable s ! cp) \<noteq> 0
                then thenR (release (plock ?p)) (\<lambda>l'. Inr (-1, lock_upd (PipeLock pa) l' s))
                else thenR (wakeup (ChanNread pa) s)
                       (\<lambda>s1. inS (\<lambda>s'. (i, s')) (sleep cp (ChanNwrite pa) (PipeLock pa) s1)))
          else thenR (wakeup (ChanNread pa) s)
                 (\<lambda>s1. thenR (release (plock (pipes s1 pa)))
                         (\<lambda>l'. Inr (n, lock_upd (PipeLock pa) l' s1))))"
      using False by (subst pipewrite_loop.simps) simp
    show ?thesis
      unfolding e using "1.prems"
      by (auto simp: thenR_def release_def lock_upd_def split: if_splits sum.splits
            dest!: wakeup_result wakeup_stop inS_sleep inS_return sleep_pipes sleep_no_return)
  qed
qed

lemma pipewrite_inv:
  assumes "unat (nwrite (pipes s pa) - nread (pipes s pa)) \<le> PIPESIZE"
  shows "(pipewrite cp pa addr n s = Inr (r, s') \<longrightarrow>
            unat (nwrite (pipes s' pa) - nread (pipes s' pa)) \<le> PIPESIZE \<and>
            readopen (pipes s' pa) = readopen (pipes s pa) \<and> writeopen (pipes s' pa) = writeopen (pipes s pa)) \<and>
         (pipewrite cp pa addr n s = Inl (Sleep c (i', s')) \<longrightarrow>
            unat (nwrite (pipes s' pa) - nread (pipes s' pa)) \<le> PIPESIZE \<and>
            readopen (pipes s' pa) = readopen (pipes s pa) \<and> writeopen (pipes s' pa) = writeopen (pipes s pa))"
proof (cases "plock (pipes s pa)")
  case Unlocked
  let ?s1 = "lock_upd (PipeLock pa) Locked s"
  have e: "pipewrite cp pa addr n s = pipewrite_loop cp pa addr n 0 ?s1"
    using Unlocked by (simp add: pipewrite_def thenR_def acquire_def holding_def)
  have p1: "pipes ?s1 pa = (pipes s pa)\<lparr>plock := Locked\<rparr>" by (simp add: lock_upd_def)
  from pipewrite_loop_inv[of ?s1 pa cp addr n 0 r s' c i'] assms
  show ?thesis unfolding e p1 by simp
next
  case Locked
  then show ?thesis by (simp add: pipewrite_def thenR_def acquire_def holding_def)
qed

lemma pipeclose_inv:
  assumes "pipeclose L pa w s = Inr s'"
  shows "nread (pipes s' pa) = nread (pipes s pa) \<and> nwrite (pipes s' pa) = nwrite (pipes s pa) \<and>
         (readopen (pipes s' pa) = 0 \<and> writeopen (pipes s' pa) = 0 \<longrightarrow> freelist (kmem s') = pa)"
  using assms
  by (auto simp: pipeclose_def thenR_def acquire_def release_def holding_def Let_def kfree_def
        lock_upd_def kmem_acquire_def kmem_release_def split: if_splits sum.splits
        dest!: wakeup_result)

lemma piperead_ex:
  "piperead 1 0x80400000 2 (kernel_with pipe_full) =
     Inr (2, [7, 7],
          (kernel_with pipe_full)
            \<lparr>pipes := (pipes (kernel_with pipe_full))(0x80400000 := pipe_full\<lparr>nread := 3\<rparr>),
             ptable := [proc_init, proc_ex, proc_writer\<lparr>state := RUNNABLE\<rparr>, proc_unused]\<rparr>)"
  by (simp add: piperead_def thenR_def acquire_def release_def holding_def lock_upd_def
        kernel_with_simps wakeup_unlocked wakeup1_writer pipe_full_def piperead_copy.simps
        PIPESIZE_def)

lemma pipewrite_ex:
  "pipewrite 1 0x80400000 [1, 2] 2 (kernel_with pipe_full) =
     Inl (Sleep (ChanNwrite 0x80400000)
            (0, (kernel_with pipe_full)
                  \<lparr>ptable_lock := Locked,
                   ptable := [proc_init, proc_ex\<lparr>chan := ChanNwrite 0x80400000, state := SLEEPING\<rparr>,
                              proc_writer, proc_unused]\<rparr>))"
proof -
  have k: "killed proc_ex = 0" by (simp add: proc_ex_def)
  show ?thesis
    by (simp add: pipewrite_def thenR_def acquire_def holding_def lock_upd_def inS_def
          kernel_with_simps wakeup_unlocked wakeup1_reader sleep_pipe pipe_full_def
          pipewrite_loop.simps PIPESIZE_def k)
       (simp add: kernel_with_def kernel_ex_def)
qed

lemma pipeclose_ex:
  "pipeclose layout_ex 0x80400000 0 (kernel_with pipe_eof) =
     Inr ((kernel_with pipe_eof)
            \<lparr>pipes := (pipes (kernel_with pipe_eof))(0x80400000 := pipe_eof\<lparr>readopen := 0\<rparr>),
             ptable := [proc_init, proc_ex, proc_writer\<lparr>state := RUNNABLE\<rparr>, proc_unused],
             kmem := kmem_ex\<lparr>mem := (memset_words (mem kmem_ex) 0x80400000 1 PGSIZE)(0x80400000 := 0x80401000),
                             freelist := 0x80400000\<rparr>\<rparr>)"
  by (simp add: pipeclose_def thenR_def acquire_def release_def holding_def lock_upd_def
        kernel_with_simps wakeup_unlocked wakeup1_writer pipe_eof_def kfree_ex
        kernel_with_def kernel_ex_def)

lemma pipealloc_ex:
  "pipealloc layout_ex iput_ex kernel_ex = Inr (0, Some 2, Some 3, kernel_piped)"
  by (simp add: pipealloc_def filealloc_def filealloc_loop.simps kernel_ex_def kernel_piped_def
        file_unused_def thenR_def acquire_def release_def holding_def kalloc_def kmem_acquire_def
        kmem_release_def kmem_ex_def pipe_junk_def)

text \<open>
  Claim C4.  The difference \<open>nwrite - nread\<close> is taken in the arithmetic of the
  counters (\<open>uint\<close>), so it is never negative.  If it is at most \<open>PIPESIZE\<close> = 512
  for the pipe at \<open>pa\<close>, it still is after \<open>piperead\<close> and after \<open>pipewrite\<close>, both
  when the call returns and when it goes to sleep (also for a writer that resumes
  its loop at byte \<open>j\<close>), and neither call changes \<open>readopen\<close> or \<open>writeopen\<close>.
  \<open>pipeclose\<close> leaves the counters alone, and whenever it leaves both \<open>readopen\<close> and
  \<open>writeopen\<close> clear it has freed the page of the pipe: that page is the head of the
  free list.  A successful \<open>pipealloc\<close> yields a pipe with both counters 0 and both
  ends open.
\<close>

theorem pipe_invariant:
  assumes "unat (nwrite (pipes s pa) - nread (pipes s pa)) \<le> PIPESIZE"
  shows "(piperead cp pa n s = Inr (r, buf, s') \<longrightarrow>
            unat (nwrite (pipes s' pa) - nread (pipes s' pa)) \<le> PIPESIZE \<and>
            readopen (pipes s' pa) = readopen (pipes s pa) \<and> writeopen (pipes s' pa) = writeopen (pipes s pa)) \<and>
         (piperead cp pa n s = Inl (Sleep c s') \<longrightarrow>
            unat (nwrite (pipes s' pa) - nread (pipes s' pa)) \<le> PIPESIZE \<and>
            readopen (pipes s' pa) = readopen (pipes s pa) \<and> writeopen (pipes s' pa) = writeopen (pipes s pa)) \<and>
         (pipewrite cp pa addr n s = Inr (r, s') \<longrightarrow>
            unat (nwrite (pipes s' pa) - nread (pipes s' pa)) \<le> PIPESIZE \<and>
            readopen (pipes s' pa) = readopen (pipes s pa) \<and> writeopen (pipes s' pa) = writeopen (pipes s pa)) \<and>
         (pipewrite cp pa addr n s = Inl (Sleep c (i, s')) \<longrightarrow>
            unat (nwrite (pipes s' pa) - nread (pipes s' pa)) \<le> PIPESIZE \<and>
            readopen (pipes s' pa) = readopen (pipes s pa) \<and> writeopen (pipes s' pa) = writeopen (pipes s pa)) \<and>
         (pipewrite_loop cp pa addr n j s = Inr (r, s') \<longrightarrow>
            unat (nwrite (pipes s' pa) - nread (pipes s' pa)) \<le> PIPESIZE \<and>
            readopen (pipes s' pa) = readopen (pipes s pa) \<and> writeopen (pipes s' pa) = writeopen (pipes s pa)) \<and>
         (pipewrite_loop cp pa addr n j s = Inl (Sleep c (i, s')) \<longrightarrow>
            unat (nwrite (pipes s' pa) - nread (pipes s' pa)) \<le> PIPESIZE \<and>
            readopen (pipes s' pa) = readopen (pipes s pa) \<and> writeopen (pipes s' pa) = writeopen (pipes s pa)) \<and>
         (pipeclose L pa w s = Inr s' \<longrightarrow>
            unat (nwrite (pipes s' pa) - nread (pipes s' pa)) \<le> PIPESIZE \<and>
            (readopen (pipes s' pa) = 0 \<and> writeopen (pipes s' pa) = 0 \<longrightarrow> freelist (kmem s') = pa)) \<and>
         (pipealloc L iput t = Inr (0, fa, fb, t') \<longrightarrow>
            (\<exists>r0 r1. fa = Some r0 \<and> fb = Some r1 \<and> r1 < length (ftable t') \<and>
               ftype (ftable t' ! r1) = FD_PIPE \<and>
               nread (pipes t' (fpipe (ftable t' ! r1))) = 0 \<and>
               nwrite (pipes t' (fpipe (ftable t' ! r1))) = 0 \<and>
               readopen (pipes t' (fpipe (ftable t' ! r1))) = 1 \<and>
               writeopen (pipes t' (fpipe (ftable t' ! r1))) = 1))"
proof (intro conjI)
  show "piperead cp pa n s = Inr (r, buf, s') \<longrightarrow>
            unat (nwrite (pipes s' pa) - nread (pipes s' pa)) \<le> PIPESIZE \<and>
            readopen (pipes s' pa) = readopen (pipes s pa) \<and> writeopen (pipes s' pa) = writeopen (pipes s pa)"
    using piperead_inv[OF assms] by blast
  show "piperead cp pa n s = Inl (Sleep c s') \<longrightarrow>
            unat (nwrite (pipes s' pa) - nread (pipes s' pa)) \<le> PIPESIZE \<and>
            readopen (pipes s' pa) = readopen (pipes s pa) \<and> writeopen (pipes s' pa) = writeopen (pipes s pa)"
    using piperead_inv[OF assms] by blast
  show "pipewrite cp pa addr n s = Inr (r, s') \<longrightarrow>
            unat (nwrite (pipes s' pa) - nread (pipes s' pa)) \<le> PIPESIZE \<and>
            readopen (pipes s' pa) = readopen (pipes s pa) \<and> writeopen (pipes s' pa) = writeopen (pipes s pa)"
    using pipewrite_inv[OF assms] by blast
  show "pipewrite cp pa addr n s = Inl (Sleep c (i, s')) \<longrightarrow>
            unat (nwrite (pipes s' pa) - nread (pipes s' pa)) \<le> PIPESIZE \<and>
            readopen (pipes s' pa) = readopen (pipes s pa) \<and> writeopen (pipes s' pa) = writeopen (pipes s pa)"
    using pipewrite_inv[OF assms] by blast
  show "pipewrite_loop cp pa addr n j s = Inr (r, s') \<longrightarrow>
            unat (nwrite (pipes s' pa) - nread (pipes s' pa)) \<le> PIPESIZE \<and>
            readopen (pipes s' pa) = readopen (pipes s pa) \<and> writeopen (pipes s' pa) = writeopen (pipes s pa)"
    using pipewrite_loop_inv[OF assms] by blast
  show "pipewrite_loop cp pa addr n j s = Inl (Sleep c (i, s')) \<longrightarrow>
            unat (nwrite (pipes s' pa) - nread (pipes s' pa)) \<le> PIPESIZE \<and>
            readopen (pipes s' pa) = readopen (pipes s pa) \<and> writeopen (pipes s' pa) = writeopen (pipes s pa)"
    using pipewrite_loop_inv[OF assms] by blast
  show "pipeclose L pa w s = Inr s' \<longrightarrow>
            unat (nwrite (pipes s' pa) - nread (pipes s' pa)) \<le> PIPESIZE \<and>
            (readopen (pipes s' pa) = 0 \<and> writeopen (pipes s' pa) = 0 \<longrightarrow> freelist (kmem s') = pa)"
    using pipeclose_inv[of L pa w s s'] assms by auto
  show "pipealloc L iput t = Inr (0, fa, fb, t') \<longrightarrow>
            (\<exists>r0 r1. fa = Some r0 \<and> fb = Some r1 \<and> r1 < length (ftable t') \<and>
               ftype (ftable t' ! r1) = FD_PIPE \<and>
               nread (pipes t' (fpipe (ftable t' ! r1))) = 0 \<and>
               nwrite (pipes t' (fpipe (ftable t' ! r1))) = 0 \<and>
               readopen (pipes t' (fpipe (ftable t' ! r1))) = 1 \<and>
               writeopen (pipes t' (fpipe (ftable t' ! r1))) = 1)"
    using pipealloc_ok[of L iput t 0 fa fb t'] by blast
qed

theorem pipe_invariant_witness:
  "unat (nwrite (pipes (kernel_with pipe_full) 0x80400000) - nread (pipes (kernel_with pipe_full) 0x80400000)) \<le> PIPESIZE \<and>
   piperead 1 0x80400000 2 (kernel_with pipe_full) =
     Inr (2, [7, 7],
          (kernel_with pipe_full)
            \<lparr>pipes := (pipes (kernel_with pipe_full))(0x80400000 := pipe_full\<lparr>nread := 3\<rparr>),
             ptable := [proc_init, proc_ex, proc_writer\<lparr>state := RUNNABLE\<rparr>, proc_unused]\<rparr>) \<and>
   unat (nwrite (pipe_full\<lparr>nread := 3\<rparr>) - nread (pipe_full\<lparr>nread := 3\<rparr>)) \<le> PIPESIZE \<and>
   pipewrite 1 0x80400000 [1, 2] 2 (kernel_with pipe_full) =
     Inl (Sleep (ChanNwrite 0x80400000)
            (0, (kernel_with pipe_full)
                  \<lparr>ptable_lock := Locked,
                   ptable := [proc_init, proc_ex\<lparr>chan := ChanNwrite 0x80400000, state := SLEEPING\<rparr>,
                              proc_writer, proc_unused]\<rparr>)) \<and>
   unat (nwrite (pipes (kernel_with pipe_eof) 0x80400000) - nread (pipes (kernel_with pipe_eof) 0x80400000)) \<le> PIPESIZE \<and>
   pipeclose layout_ex 0x80400000 0 (kernel_with pipe_eof) =
     Inr ((kernel_with pipe_eof)
            \<lparr>pipes := (pipes (kernel_with pipe_eof))(0x80400000 := pipe_eof\<lparr>readopen := 0\<rparr>),
             ptable := [proc_init, proc_ex, proc_writer\<lparr>state := RUNNABLE\<rparr>, proc_unused],
             kmem := kmem_ex\<lparr>mem := (memset_words (mem kmem_ex) 0x80400000 1 PGSIZE)(0x80400000 := 0x80401000),
                             freelist := 0x80400000\<rparr>\<rparr>) \<and>
   freelist (kmem_ex\<lparr>mem := (memset_words (mem kmem_ex) 0x80400000 1 PGSIZE)(0x80400000 := 0x80401000),
                     freelist := 0x80400000\<rparr>) = 0x80400000 \<and>
   pipealloc layout_ex iput_ex kernel_ex = Inr (0, Some 2, Some 3, kernel_piped) \<and>
   nread (pipes kernel_piped (fpipe (ftable kernel_piped ! 3))) = 0 \<and>
   nwrite (pipes kernel_piped (fpipe (ftable kernel_piped ! 3))) = 0"
proof -
  have a: "unat (nwrite (pipes (kernel_with pipe_full) 0x80400000) - nread (pipes (kernel_with pipe_full) 0x80400000)) \<le> PIPESIZE"
    by (simp add: kernel_with_simps pipe_full_def PIPESIZE_def)
  have c: "unat (nwrite (pipes (kernel_with pipe_eof) 0x80400000) - nread (pipes (kernel_with pipe_eof) 0x80400000)) \<le> PIPESIZE"
    by (simp add: kernel_with_simps pipe_eof_def PIPESIZE_def)
  from pipe_invariant [OF a, where cp = 1 and n = 2, THEN conjunct1, rule_format, OF piperead_ex]
  have r1: "unat (nwrite (pipe_full\<lparr>nread := 3\<rparr>) - nread (pipe_full\<lparr>nread := 3\<rparr>)) \<le> PIPESIZE"
    by simp
  from pipe_invariant [OF c, where L = layout_ex and w = 0, THEN conjunct2, THEN conjunct2,
      THEN conjunct2, THEN conjunct2, THEN conjunct2, THEN conjunct2, THEN conjunct1,
      rule_format, OF pipeclose_ex]
  have r2: "freelist (kmem_ex\<lparr>mem := (memset_words (mem kmem_ex) 0x80400000 1 PGSIZE)(0x80400000 := 0x80401000),
                     freelist := 0x80400000\<rparr>) = 0x80400000"
    by (simp add: pipe_eof_def)
  from pipe_invariant [OF a, where L = layout_ex and iput = iput_ex and t = kernel_ex,
      THEN conjunct2, THEN conjunct2, THEN conjunct2, THEN conjunct2, THEN conjunct2,
      THEN conjunct2, THEN conjunct2, rule_format, OF pipealloc_ex]
  have r3: "nread (pipes kernel_piped (fpipe (ftable kernel_piped ! 3))) = 0 \<and>
            nwrite (pipes kernel_piped (fpipe (ftable kernel_piped ! 3))) = 0"
    by auto
  from a c r1 r2 r3 piperead_ex pipewrite_ex pipeclose_ex pipealloc_ex show ?thesis by blast
qed


section \<open>Descriptors are handed out lowest first\<close>




lemma sys_pipe_ex:
  "sys_pipe 4 layout_ex iput_ex 1 uspace_ptr kernel_ex =
     Inr (0,
          uspace_ptr\<lparr>uword := (uword uspace_ptr)(0x1000 := 1, 0x1004 := 3),
                      accessed := [0x2FF4, 0x1000, 0x1004]\<rparr>,
          kernel_piped\<lparr>ptable := [proc_init, proc_ex\<lparr>ofile := [Some 0, Some 2, Some 1, Some 3]\<rparr>,
                                   proc_unused, proc_unused]\<rparr>)"
proof -
  have p1: "ptable kernel_ex ! Suc 0 = proc_ex" "ptable kernel_piped ! Suc 0 = proc_ex"
    by (simp_all add: kernel_ex_def kernel_piped_def)
  have a: "argptr proc_ex 0 0 8 uspace_ptr = (0, 0x1000, uspace_ptr\<lparr>accessed := [0x2FF4]\<rparr>)"
    by (simp add: argptr_def argint_def fetchint_def proc_ex_def uspace_ptr_def word_sless_alt)
  have f0: "fdalloc 4 (Some 2) proc_ex = (1, proc_ex\<lparr>ofile := [Some 0, Some 2, Some (Suc 0), None]\<rparr>)"
    by (simp add: fdalloc_def fdalloc_loop.simps proc_ex_def)
  have f1: "fdalloc 4 (Some 3) (proc_ex\<lparr>ofile := [Some 0, Some 2, Some (Suc 0), None]\<rparr>) =
              (3, proc_ex\<lparr>ofile := [Some 0, Some 2, Some (Suc 0), Some 3]\<rparr>)"
    by (simp add: fdalloc_def fdalloc_loop.simps proc_ex_def)
  have pt: "ptable kernel_piped = [proc_init, proc_ex, proc_unused, proc_unused]"
    by (simp add: kernel_piped_def kernel_ex_def)
  show ?thesis
    by (simp add: sys_pipe_def p1 a pipealloc_ex thenR_def f0 f1 pt)
qed

lemma sys_dup_ex:
  "sys_dup 4 1 uspace_zero kernel_ex =
     Inr (1, uspace_zero\<lparr>accessed := [0x2FF4]\<rparr>,
          kernel_ex\<lparr>ptable := [proc_init, proc_ex\<lparr>ofile := [Some 0, Some 0, Some 1, None]\<rparr>,
                                proc_unused, proc_unused],
                    ftable := [(ftable kernel_ex ! 0)\<lparr>ref := 5\<rparr>, ftable kernel_ex ! 1,
                               file_unused, file_unused]\<rparr>)"
proof -
  have p1: "ptable kernel_ex ! Suc 0 = proc_ex"
    by (simp add: kernel_ex_def)
  have a: "argfd 4 proc_ex 0 uspace_zero = (0, 0, Some 0, uspace_zero\<lparr>accessed := [0x2FF4]\<rparr>)"
    by (simp add: argfd_def argint_def fetchint_def proc_ex_def uspace_zero_def)
  have f0: "fdalloc 4 (Some 0) proc_ex = (1, proc_ex\<lparr>ofile := [Some 0, Some 0, Some (Suc 0), None]\<rparr>)"
    by (simp add: fdalloc_def fdalloc_loop.simps proc_ex_def)
  show ?thesis
    by (simp add: sys_dup_def p1 a f0 thenR_def filedup_def acquire_def release_def holding_def
          kernel_ex_def)
qed













section \<open>fork, exit and wait\<close>

lemma allocproc_lock:
  "allocproc s = Inr (Some np, s1) \<Longrightarrow> ptable_lock s1 = Locked"
  by (auto simp: allocproc_def thenR_def acquire_def release_def holding_def Let_def
        split: if_splits option.splits sum.splits prod.splits)

lemma filedup_lock:
  "filedup f s = Inr (g, s') \<Longrightarrow> ptable_lock s' = ptable_lock s"
  by (auto simp: filedup_def thenR_def acquire_def release_def holding_def split: if_splits)

lemma fork_files_lock:
  "fork_files NOFILE cp np i s = (Inr s' :: 's stop + kernel) \<Longrightarrow> ptable_lock s' = ptable_lock s"
proof (induction "NOFILE - i" arbitrary: i s)
  case 0
  then show ?case by (subst (asm) fork_files.simps) simp
next
  case (Suc n)
  then have lt: "i < NOFILE" and n: "n = NOFILE - (i + 1)" by auto
  show ?case
  proof (cases "ofile (ptable s ! cp) ! i")
    case None
    with lt Suc.prems have "fork_files NOFILE cp np (i + 1) s = (Inr s' :: 's stop + kernel)"
      by (subst (asm) fork_files.simps) simp
    from Suc.hyps(1)[OF n this] show ?thesis .
  next
    case (Some f)
    with lt Suc.prems obtain g s1 where
      d: "filedup f s = (Inr (g, s1) :: 's stop + nat \<times> kernel)" and
      r: "fork_files NOFILE cp np (i + 1)
            (s1\<lparr>ptable := (ptable s1)[np := (ptable s1 ! np)\<lparr>ofile := (ofile (ptable s1 ! np))[i := Some g]\<rparr>]\<rparr>)
          = (Inr s' :: 's stop + kernel)"
      by (subst (asm) fork_files.simps) (auto simp: thenR_def split: sum.splits)
    from Suc.hyps(1)[OF n r] filedup_lock[OF d] show ?thesis by simp
  qed
qed

text \<open>
  \<open>allocproc\<close> returns the new slot with \<open>ptable.lock\<close> still held, so the
  \<open>acquire(&ptable.lock)\<close> at the end of \<open>fork\<close> cannot succeed: \<open>fork\<close> returns
  only where it fails, with -1.
\<close>

lemma fork_never_succeeds:
  assumes "fork L NOFILE copyuvm cp s = Inr (r, s')"
  shows "r = -1"
  using assms
  by (auto simp: fork_def thenR_def Let_def acquire_def holding_def
        split: sum.splits option.splits if_splits prod.splits
        dest!: allocproc_lock fork_files_lock)

text \<open>
  In the example kernel \<open>allocproc\<close> takes slot 2 and the free page for its kernel
  stack; the slot stays \<open>UNUSED\<close> with pid 0, \<open>nextpid\<close> is not advanced and
  \<open>ptable.lock\<close> is still held at the return.
\<close>

lemma allocproc_ex:
  "allocproc kernel_ex =
     Inr (Some 2, kernel_ex\<lparr>ptable_lock := Locked, kmem := kmem_ex\<lparr>freelist := 0\<rparr>,
                           ptable := [proc_init, proc_ex, proc_unused\<lparr>kstack := 0x80401000\<rparr>, proc_unused]\<rparr>)"
  by (simp add: allocproc_def allocproc_scan.simps kernel_ex_def proc_init_def proc_ex_def
        proc_unused_def thenR_def acquire_def holding_def kalloc_def kmem_acquire_def
        kmem_release_def release_def kmem_ex_def Let_def)

text \<open>
  In a kernel where the process in slot 1 has a zombie child with pid 3, \<open>wait\<close>
  returns 3; in the example kernel, where the process has no child, it returns -1.
\<close>

lemma wait_zombie:
  "wait layout_ex 1 kernel_zombie =
     Inr (3, kernel_zombie
            \<lparr>kmem := kmem_ex\<lparr>mem := (memset_words (mem kmem_ex) 0x80402000 1 PGSIZE)(0x80402000 := 0x80401000),
                            freelist := 0x80402000\<rparr>,
             ptable := [proc_init, proc_ex,
                        proc_zombie\<lparr>pid := 0, parent := None, name := [], killed := 0, state := UNUSED\<rparr>,
                        proc_unused]\<rparr>)"
  by (simp add: wait_def wait_scan.simps kernel_zombie_def kernel_ex_def proc_init_def proc_ex_def
        proc_zombie_def thenR_def acquire_def release_def holding_def kfree_def layout_ex_def
        PGSIZE_def V2P_def kmem_acquire_def kmem_release_def kmem_ex_def)

lemma wait_no_children:
  "wait layout_ex 1 kernel_ex = Inr (-1, kernel_ex)"
  by (simp add: wait_def wait_scan.simps kernel_ex_def proc_init_def proc_ex_def
        proc_unused_def thenR_def acquire_def release_def holding_def)

lemma wait_scan_found:
  "wait_scan cp j hk ps = (Some i, hk') \<Longrightarrow>
   i < length ps \<and> parent (ps ! i) = Some cp \<and> state (ps ! i) = ZOMBIE"
proof (induction cp j hk ps rule: wait_scan.induct)
  case (1 cp j hk ps)
  then show ?case
    by (subst (asm) (3) wait_scan.simps) (auto split: if_splits)
qed

text \<open>
  Claim C3.  The claim has \<open>wait\<close> reclaim, for the child that has exited, the kernel
  stack, the page tables and frames, and the process slot.  Whenever the \<open>wait\<close> of
  the source returns the pid of a child, that child was a zombie in some slot \<open>i\<close>;
  the allocator is left exactly as \<open>kfree(p->kstack)\<close> leaves it, so the kernel stack
  is the only page given back; and of the slot only \<open>pid\<close>, \<open>parent\<close>, \<open>name\<close>,
  \<open>killed\<close> and \<open>state\<close> change: its \<open>pgdir\<close> still points to the page directory of
  the child, whose page tables and frames stay allocated, and its \<open>kstack\<close> still
  points to the page that was freed.
\<close>

theorem wait_keeps_page_table:
  assumes "wait L cp s = Inr (r, s')" and "r \<noteq> -1"
  shows "\<exists>i < length (ptable s).
           parent (ptable s ! i) = Some cp \<and> state (ptable s ! i) = ZOMBIE \<and> r = pid (ptable s ! i) \<and>
           kfree L (kstack (ptable s ! i)) (kmem s) = Inr (kmem s') \<and>
           ptable s' = (ptable s)[i := (ptable s ! i)
                          \<lparr>pid := 0, parent := None, name := [], killed := 0, state := UNUSED\<rparr>] \<and>
           pgdir (ptable s' ! i) = pgdir (ptable s ! i) \<and>
           kstack (ptable s' ! i) = kstack (ptable s ! i)"
proof -
  obtain x hk where sc: "wait_scan cp 0 0 (ptable s) = (x, hk)"
    by (cases "wait_scan cp 0 0 (ptable s)") auto
  show ?thesis
  proof (cases x)
    case None
    with assms sc show ?thesis
      by (auto simp: wait_def thenR_def acquire_def release_def holding_def Let_def
            split: if_splits dest: sleep_no_return)
  next
    case (Some i)
    from wait_scan_found [OF sc [unfolded Some]]
    have i: "i < length (ptable s)" "parent (ptable s ! i) = Some cp" "state (ptable s ! i) = ZOMBIE"
      by simp_all
    from assms(1) sc Some obtain k where
      k: "kfree L (kstack (ptable s ! i)) (kmem s) = (Inr k :: kernel stop + kmem)"
      and r: "r = pid (ptable s ! i)"
      and s': "s' = s\<lparr>kmem := k, ptable := (ptable s)[i := (ptable s ! i)
                          \<lparr>pid := 0, parent := None, name := [], killed := 0, state := UNUSED\<rparr>],
                       ptable_lock := Unlocked\<rparr>"
      by (auto simp: wait_def thenR_def acquire_def release_def holding_def Let_def
            split: if_splits sum.splits)
    have k': "kfree L (kstack (ptable s ! i)) (kmem s) = Inr k"
      using k by (auto simp: kfree_def thenR_def kmem_acquire_def kmem_release_def acquire_def
            release_def Let_def split: if_splits)
    from i r s' k' show ?thesis by auto
  qed
qed

theorem wait_keeps_page_table_witness:
  "\<exists>S. wait layout_ex 1 kernel_zombie = Inr (3, S) \<and>
        kfree layout_ex 0x80402000 (kmem kernel_zombie) = (Inr (kmem S) :: kernel stop + kmem) \<and>
        freelist (kmem S) = 0x80402000 \<and> mem (kmem S) 0x80402000 = 0x80401000 \<and>
        mem (kmem S) 0x80401000 = 0 \<and>
        state (ptable S ! 2) = UNUSED \<and> kstack (ptable S ! 2) = 0x80402000 \<and>
        pgdir (ptable S ! 2) = 0x80500000 \<and>
        wait layout_ex 1 S = Inr (-1, S)"
proof -
  let ?S = "kernel_zombie
            \<lparr>kmem := kmem_ex\<lparr>mem := (memset_words (mem kmem_ex) 0x80402000 1 PGSIZE)(0x80402000 := 0x80401000),
                            freelist := 0x80402000\<rparr>,
             ptable := [proc_init, proc_ex,
                        proc_zombie\<lparr>pid := 0, parent := None, name := [], killed := 0, state := UNUSED\<rparr>,
                        proc_unused]\<rparr>"
  have pt: "ptable kernel_zombie = [proc_init, proc_ex, proc_zombie, proc_unused]"
    by (simp add: kernel_zombie_def)
  have ne: "(3 :: int) \<noteq> -1" by simp
  from wait_keeps_page_table [OF wait_zombie ne]
  obtain i where i: "i < length (ptable kernel_zombie)" "state (ptable kernel_zombie ! i) = ZOMBIE"
    and k: "kfree layout_ex (kstack (ptable kernel_zombie ! i)) (kmem kernel_zombie) =
              (Inr (kmem ?S) :: kernel stop + kmem)"
    and d: "pgdir (ptable ?S ! i) = pgdir (ptable kernel_zombie ! i)"
           "kstack (ptable ?S ! i) = kstack (ptable kernel_zombie ! i)"
    by blast
  have "i = 2"
  proof -
    from i(1) have "i = 0 \<or> i = 1 \<or> i = 2 \<or> i = 3" unfolding pt by auto
    with i(2) show ?thesis
      unfolding pt by (auto simp: proc_init_def proc_ex_def proc_unused_def)
  qed
  with k d have k2: "kfree layout_ex 0x80402000 (kmem kernel_zombie) = (Inr (kmem ?S) :: kernel stop + kmem)"
    and d2: "pgdir (ptable ?S ! 2) = 0x80500000" "kstack (ptable ?S ! 2) = 0x80402000"
    by (simp_all add: pt proc_zombie_def)
  have f: "freelist (kmem ?S) = 0x80402000" "mem (kmem ?S) 0x80402000 = 0x80401000"
    "mem (kmem ?S) 0x80401000 = 0" "state (ptable ?S ! 2) = UNUSED"
    by (simp_all add: kmem_ex_def memset_words_def PGSIZE_def)
  have w2: "wait layout_ex 1 ?S = Inr (-1, ?S)"
    by (simp add: wait_def wait_scan.simps kernel_zombie_def kernel_ex_def proc_init_def proc_ex_def
          proc_zombie_def proc_unused_def thenR_def acquire_def release_def holding_def)
  from wait_zombie k2 f d2 w2 show ?thesis by blast
qed


end
